theory Spec2Isabelle
  imports Complex_Main "HOL-Library.Char_ord" "HOL-Library.List_Lexorder"
    "HOL-Library.Product_Lexorder" "HOL-Library.Sublist"
begin

section \<open>Python values\<close>

text \<open>
  A Python \<open>str\<close> is modelled as a \<open>string\<close>: one \<open>char\<close> per code point, for the
  code points below 256. \<open>length\<close> is Python's \<open>len\<close>, \<open>take n\<close> is the slice
  \<open>s[:n]\<close>, and the order of \<open>Char_ord\<close> and \<open>List_Lexorder\<close> is Python's order on
  strings (code point by code point, a proper prefix first).
\<close>

text \<open>\<open>str.lower()\<close> on that range: A-Z, and the Latin-1 capitals 0xC0-0xDE except
  the multiplication sign 0xD7, move up by 32, which sets the bit of weight 32 (it is
  clear in each of them).\<close>

definition lower_char :: "char \<Rightarrow> char" where
  "lower_char c =
     (let n = (of_char c :: nat)
      in if (65 \<le> n \<and> n \<le> 90) \<or> (192 \<le> n \<and> n \<le> 222 \<and> n \<noteq> 215)
         then (case c of Char b0 b1 b2 b3 b4 b5 b6 b7 \<Rightarrow> Char b0 b1 b2 b3 b4 True b6 b7)
         else c)"

definition lower :: "string \<Rightarrow> string" where
  "lower s = map lower_char s"

text \<open>\<open>str.isspace()\<close> of one code point below 256, and \<open>str.strip()\<close>.\<close>

definition is_space :: "char \<Rightarrow> bool" where
  "is_space c =
     (let n = (of_char c :: nat)
      in (9 \<le> n \<and> n \<le> 13) \<or> (28 \<le> n \<and> n \<le> 32) \<or> n = 133 \<or> n = 160)"

definition strip :: "string \<Rightarrow> string" where
  "strip s = rev (dropWhile is_space (rev (dropWhile is_space s)))"

text \<open>\<open>s.rstrip("/")\<close>.\<close>

definition rstrip_slash :: "string \<Rightarrow> string" where
  "rstrip_slash s = rev (dropWhile (\<lambda>c. c = CHR ''/'') (rev s))"

text \<open>\<open>s.startswith(p)\<close> and \<open>sub in s\<close>.\<close>

fun startswith :: "string \<Rightarrow> string \<Rightarrow> bool" where
  "startswith s [] = True"
| "startswith [] (p # ps) = False"
| "startswith (c # cs) (p # ps) = (c = p \<and> startswith cs ps)"

fun str_contains :: "string \<Rightarrow> string \<Rightarrow> bool" where
  "str_contains sub [] = (sub = [])"
| "str_contains sub (c # cs) = (startswith (c # cs) sub \<or> str_contains sub cs)"

text \<open>
  The values \<open>r.json()\<close> returns. A \<open>dict\<close> is the list of its items, looked up with
  \<open>map_of\<close>; the floats are the finite ones (Python's parser also accepts NaN and the
  infinities, which are left out).
\<close>

datatype json =
    JNull
  | JBool bool
  | JInt int
  | JFloat rat
  | JStr string
  | JArr "json list"
  | JObj "(string \<times> json) list"

type_synonym pydict = "(string \<times> json) list"

text \<open>\<open>d.get(k)\<close>: the value, or \<open>None\<close> when the key is absent.\<close>

definition dget :: "pydict \<Rightarrow> string \<Rightarrow> json" where
  "dget d k = (case map_of d k of None \<Rightarrow> JNull | Some v \<Rightarrow> v)"

text \<open>\<open>d[k] = v\<close>: replaces the value of an existing key in place, appends a new key.\<close>

fun dset :: "('k \<times> 'v) list \<Rightarrow> 'k \<Rightarrow> 'v \<Rightarrow> ('k \<times> 'v) list" where
  "dset [] k v = [(k, v)]"
| "dset ((k', v') # d) k v = (if k' = k then (k, v) # d else (k', v') # dset d k v)"

text \<open>\<open>d.update(e)\<close>.\<close>

definition dupdate :: "pydict \<Rightarrow> pydict \<Rightarrow> pydict" where
  "dupdate d e = foldl (\<lambda>acc (k, v). dset acc k v) d e"

text \<open>Python's truth value of an object: \<open>bool(v)\<close>.\<close>

fun truthy :: "json \<Rightarrow> bool" where
  "truthy JNull = False"
| "truthy (JBool b) = b"
| "truthy (JInt i) = (i \<noteq> 0)"
| "truthy (JFloat f) = (f \<noteq> 0)"
| "truthy (JStr s) = (s \<noteq> [])"
| "truthy (JArr xs) = (xs \<noteq> [])"
| "truthy (JObj d) = (d \<noteq> [])"

text \<open>\<open>str(n)\<close> of an integer: its decimal digits, with a minus sign below zero.\<close>

fun str_nat :: "nat \<Rightarrow> string" where
  "str_nat n =
     (if n < 10 then [''0123456789'' ! n]
      else str_nat (n div 10) @ [''0123456789'' ! (n mod 10)])"

definition str_int :: "int \<Rightarrow> string" where
  "str_int i = (if i < 0 then ''-'' @ str_nat (nat (- i)) else str_nat (nat i))"

text \<open>\<open>type(v).__name__\<close>.\<close>

fun type_name :: "json \<Rightarrow> string" where
  "type_name JNull = ''NoneType''"
| "type_name (JBool b) = ''bool''"
| "type_name (JInt i) = ''int''"
| "type_name (JFloat f) = ''float''"
| "type_name (JStr s) = ''str''"
| "type_name (JArr xs) = ''list''"
| "type_name (JObj d) = ''dict''"

text \<open>An exception: the name of its class and \<open>str(e)\<close>. Every exception of the model
  is of a subclass of \<open>Exception\<close>.\<close>

datatype exn = Exn (exn_type: string) (exn_str: string)

text \<open>A name between single quotes, as Python's messages print it.\<close>

definition quoted :: "string \<Rightarrow> string" where
  "quoted s = [CHR 0x27] @ s @ [CHR 0x27]"

definition no_attribute :: "json \<Rightarrow> string \<Rightarrow> exn" where
  "no_attribute v a =
     Exn ''AttributeError'' (quoted (type_name v) @ '' object has no attribute '' @ quoted a)"

text \<open>\<open>j.get(k)\<close> on any object: only a \<open>dict\<close> has the method.\<close>

definition jget :: "json \<Rightarrow> string \<Rightarrow> exn + json" where
  "jget j k = (case j of JObj d \<Rightarrow> Inr (dget d k) | _ \<Rightarrow> Inl (no_attribute j ''get''))"

section \<open>Error summaries\<close>

text \<open>\<open>err_summary\<close>, lines 45-59.\<close>

definition err_summary :: "json \<Rightarrow> pydict option" where
  "err_summary j =
     (case j of
        JObj d \<Rightarrow>
          (case dget d ''error'' of
             JObj err \<Rightarrow>
               (let msg = dget err ''message'';
                    msg' = (case msg of
                              JStr s \<Rightarrow> if length s > 240 then JStr (take 237 s @ ''...'') else msg
                            | _ \<Rightarrow> msg)
                in Some [(''type'', dget err ''type''),
                         (''code'', dget err ''code''),
                         (''param'', dget err ''param''),
                         (''message'', msg')])
           | _ \<Rightarrow> None)
      | _ \<Rightarrow> None)"

section \<open>The classifier\<close>

text \<open>\<open>category_for\<close>, lines 62-99.\<close>

definition category_for :: "string \<Rightarrow> string" where
  "category_for mid =
     (let m = lower mid
      in if startswith m ''sora-'' then ''video''
         else if str_contains ''realtime'' m then ''realtime''
         else if str_contains ''computer-use'' m then ''computer_use''
         else if str_contains ''moderation'' m then ''moderation''
         else if str_contains ''embedding'' m then ''embeddings''
         else if str_contains ''transcribe'' m \<or> m = ''whisper-1'' then ''transcribe''
         else if startswith m ''tts-'' \<or> str_contains ''-tts'' m then ''tts''
         else if str_contains ''audio-preview'' m \<or> startswith m ''gpt-audio'' then ''audio_chat''
         else if str_contains ''deep-research'' m then ''deep_research''
         else if str_contains ''search-api'' m \<or> str_contains ''search-preview'' m then ''search''
         else if str_contains ''search'' m then ''search''
         else if m \<in> {''dall-e-2'', ''dall-e-3''} then ''dalle''
         else if str_contains ''image'' m then ''image''
         else ''text'')"

section \<open>The transport\<close>

text \<open>
  What \<open>requests\<close> is given and what it answers. The body of a multipart request
  lists the form fields and, for each file, the field, the file name, the path of the
  opened file and the content type. Of a response the model keeps the status, the
  header items, the text and what \<open>r.json()\<close> returns (\<open>None\<close> when it raises).
\<close>

datatype body =
    No_body
  | Json_body pydict
  | Multipart_body "(string \<times> string) list" "(string \<times> string \<times> string \<times> string) list"

record request =
  verb :: string
  url :: string
  headers :: "(string \<times> string) list"
  payload :: body
  timeout :: int

record response =
  status_code :: int
  resp_headers :: "(string \<times> string) list"
  resp_text :: string
  resp_json :: "json option"

datatype reply = Response response | Raises exn

text \<open>What the run writes to standard error.\<close>

datatype message =
    Missing_wav string
  | Models_failed int json
  | Progress nat nat nat

text \<open>
  The effects of a run, in order: a request sent, a \<open>time.sleep\<close> (in milliseconds),
  a line on standard error, the JSON report dumped and the Markdown report written.
\<close>

datatype event =
    Sent request
  | Slept int
  | Stderr message
  | Dumped string
  | Wrote_md string

text \<open>
  The upstream server is any state machine: \<open>send\<close> takes a request and the server's
  state to the reply and the next state. The world of a run is that state and the
  trace of the effects so far.
\<close>

record 'w world =
  server :: 'w
  trace :: "event list"

type_synonym 'w transport = "request \<Rightarrow> 'w \<Rightarrow> reply \<times> 'w"

type_synonym ('a, 'w) io = "'w world \<Rightarrow> (exn + 'a) \<times> 'w world"

definition io_return :: "'a \<Rightarrow> ('a, 'w) io" where
  "io_return x w = (Inr x, w)"

definition io_raise :: "exn \<Rightarrow> ('a, 'w) io" where
  "io_raise e w = (Inl e, w)"

definition io_pure :: "exn + 'a \<Rightarrow> ('a, 'w) io" where
  "io_pure r w = (r, w)"

definition io_bind :: "('a, 'w) io \<Rightarrow> ('a \<Rightarrow> ('b, 'w) io) \<Rightarrow> ('b, 'w) io" where
  "io_bind m f w = (case m w of (Inl e, w') \<Rightarrow> (Inl e, w') | (Inr x, w') \<Rightarrow> f x w')"

definition emit :: "event \<Rightarrow> 'w world \<Rightarrow> 'w world" where
  "emit ev w = w\<lparr>trace := trace w @ [ev]\<rparr>"

definition sleep_ms :: "int \<Rightarrow> (unit, 'w) io" where
  "sleep_ms ms w = (Inr (), emit (Slept ms) w)"

definition http_send :: "'w transport \<Rightarrow> request \<Rightarrow> (response, 'w) io" where
  "http_send send rq w =
     (case send rq (server w) of
        (Raises e, s') \<Rightarrow> (Inl e, emit (Sent rq) (w\<lparr>server := s'\<rparr>))
      | (Response r, s') \<Rightarrow> (Inr r, emit (Sent rq) (w\<lparr>server := s'\<rparr>)))"

section \<open>The client\<close>

record client =
  base_url :: string
  api_key :: "string option"
  auth_mode :: string

text \<open>\<open>not self.api_key\<close>: no key, or the empty one.\<close>

definition no_key :: "client \<Rightarrow> bool" where
  "no_key c = (case api_key c of None \<Rightarrow> True | Some k \<Rightarrow> k = [])"

definition key_required :: exn where
  "key_required = Exn ''RuntimeError'' ''OPENAI_API_KEY is required for auth-mode=bearer''"

definition headers_json :: "client \<Rightarrow> exn + (string \<times> string) list" where
  "headers_json c =
     (let h = [(''Content-Type'', ''application/json'')]
      in if auth_mode c = ''bearer''
         then (if no_key c then Inl key_required
               else Inr (dset h ''Authorization'' (''Bearer '' @ the (api_key c))))
         else Inr h)"

definition headers_multipart :: "client \<Rightarrow> exn + (string \<times> string) list" where
  "headers_multipart c =
     (let h = []
      in if auth_mode c = ''bearer''
         then (if no_key c then Inl key_required
               else Inr (dset h ''Authorization'' (''Bearer '' @ the (api_key c))))
         else Inr h)"

definition client_url :: "client \<Rightarrow> string \<Rightarrow> string" where
  "client_url c path = rstrip_slash (base_url c) @ path"

text \<open>\<open>{k.lower(): v for k, v in r.headers.items()}\<close>.\<close>

definition lower_keys :: "(string \<times> string) list \<Rightarrow> (string \<times> string) list" where
  "lower_keys items = foldl (\<lambda>acc (k, v). dset acc (lower k) v) [] items"

text \<open>\<open>hdrs.get("content-type", "")\<close>.\<close>

definition content_type :: "(string \<times> string) list \<Rightarrow> string" where
  "content_type hdrs = (case map_of hdrs ''content-type'' of None \<Rightarrow> [] | Some v \<Rightarrow> v)"

text \<open>The body of a response: \<open>r.json()\<close>, or the first \<open>n\<close> characters of the text under
  \<open>_raw\<close> when that raises.\<close>

definition json_or_raw :: "nat \<Rightarrow> response \<Rightarrow> json" where
  "json_or_raw n r =
     (case resp_json r of Some j \<Rightarrow> j | None \<Rightarrow> JObj [(''_raw'', JStr (take n (resp_text r)))])"

text \<open>\<open>get_models\<close>, lines 129-135.\<close>

definition get_models :: "'w transport \<Rightarrow> client \<Rightarrow> (int \<times> json, 'w) io" where
  "get_models send c =
     io_bind (io_pure (headers_json c)) (\<lambda>h.
     io_bind (http_send send
                \<lparr>verb = ''GET'', url = client_url c ''/v1/models'', headers = h,
                 payload = No_body, timeout = 60\<rparr>) (\<lambda>r.
     io_return (status_code r, json_or_raw 500 r)))"

text \<open>\<open>post_json\<close>, lines 138-149.\<close>

definition post_json ::
  "'w transport \<Rightarrow> client \<Rightarrow> string \<Rightarrow> pydict \<Rightarrow> int
     \<Rightarrow> (int \<times> json \<times> (string \<times> string) list, 'w) io" where
  "post_json send c path pl tmo =
     io_bind (io_pure (headers_json c)) (\<lambda>h.
     io_bind (http_send send
                \<lparr>verb = ''POST'', url = client_url c path, headers = h,
                 payload = Json_body pl, timeout = tmo\<rparr>) (\<lambda>r.
     let hdrs = lower_keys (resp_headers r);
         ct = content_type hdrs
     in if startswith ct ''audio/''
        then io_return (status_code r, JObj [(''_binary'', JBool True)], hdrs)
        else io_return (status_code r, json_or_raw 800 r, hdrs)))"

text \<open>\<open>post_multipart\<close>, lines 152-165.\<close>

definition post_multipart ::
  "'w transport \<Rightarrow> client \<Rightarrow> string \<Rightarrow> (string \<times> string) list
     \<Rightarrow> (string \<times> string \<times> string \<times> string) list \<Rightarrow> int
     \<Rightarrow> (int \<times> json \<times> (string \<times> string) list, 'w) io" where
  "post_multipart send c path flds files tmo =
     io_bind (io_pure (headers_multipart c)) (\<lambda>h.
     io_bind (http_send send
                \<lparr>verb = ''POST'', url = client_url c path, headers = h,
                 payload = Multipart_body flds files, timeout = tmo\<rparr>) (\<lambda>r.
     let hdrs = lower_keys (resp_headers r)
     in io_return (status_code r, json_or_raw 800 r, hdrs)))"

section \<open>The probes\<close>

text \<open>\<open>st == 200 and not j.get("error")\<close>: the method is looked up only when the
  status is 200, and only a \<open>dict\<close> has it.\<close>

definition is_ok :: "int \<Rightarrow> json \<Rightarrow> exn + bool" where
  "is_ok st j =
     (if st = 200
      then (case jget j ''error'' of Inl e \<Rightarrow> Inl e | Inr v \<Rightarrow> Inr (\<not> truthy v))
      else Inr False)"

text \<open>The \<open>dict\<close> that \<open>probe_text_like\<close> returns.\<close>

record chain_result =
  r_ok :: bool
  r_endpoint :: string
  r_http :: int
  r_error :: "pydict option"

text \<open>The payloads of the three requests of \<open>probe_text_like\<close>: lines 170-176 (with
  \<open>if extra: payload.update(extra)\<close>), 196-200 and 210-214.\<close>

definition responses_payload :: "string \<Rightarrow> pydict option \<Rightarrow> pydict" where
  "responses_payload mid extra =
     (let pl = [(''model'', JStr mid),
                (''input'', JStr ''Reply with exactly: OK''),
                (''max_output_tokens'', JInt 16)]
      in case extra of
           None \<Rightarrow> pl
         | Some e \<Rightarrow> if e \<noteq> [] then dupdate pl e else pl)"

definition chat_payload :: "string \<Rightarrow> pydict" where
  "chat_payload mid =
     [(''model'', JStr mid),
      (''messages'', JArr [JObj [(''role'', JStr ''user''),
                                 (''content'', JStr ''Reply with exactly: OK'')]]),
      (''max_tokens'', JInt 16)]"

definition completions_payload :: "string \<Rightarrow> pydict" where
  "completions_payload mid =
     [(''model'', JStr mid),
      (''prompt'', JStr ''Reply with exactly: OK''),
      (''max_tokens'', JInt 16)]"

text \<open>\<open>es or err_summary(j3) or err_summary(j4) or {"message": "unknown"}\<close>, line 220: a
  summary has four keys, so it is true whenever it is not \<open>None\<close>.\<close>

definition first_error :: "pydict option \<Rightarrow> json \<Rightarrow> json \<Rightarrow> pydict" where
  "first_error es j3 j4 =
     (case es of
        Some e \<Rightarrow> e
      | None \<Rightarrow>
          (case err_summary j3 of
             Some e \<Rightarrow> e
           | None \<Rightarrow>
               (case err_summary j4 of
                  Some e \<Rightarrow> e
                | None \<Rightarrow> [(''message'', JStr ''unknown'')])))"

text \<open>\<open>probe_text_like\<close>, lines 168-220. The block of the retry either returns from the
  function (\<open>Inl\<close>) or falls through with the rebound \<open>st\<close>, \<open>j\<close> and \<open>es\<close>.\<close>

definition probe_text_like ::
  "'w transport \<Rightarrow> client \<Rightarrow> string \<Rightarrow> pydict option \<Rightarrow> (chain_result, 'w) io" where
  "probe_text_like send c mid extra =
     (let pl = responses_payload mid extra in
      io_bind (post_json send c ''/v1/responses'' pl 90) (\<lambda>(st, j, _).
      io_bind (io_pure (is_ok st j)) (\<lambda>ok1.
      if ok1
      then io_return \<lparr>r_ok = True, r_endpoint = ''/v1/responses'', r_http = st, r_error = None\<rparr>
      else
        let es = err_summary j in
        io_bind
          (if (case es of None \<Rightarrow> False | Some e \<Rightarrow> dget e ''type'' = JStr ''server_error'')
           then
             io_bind (sleep_ms 500) (\<lambda>_.
             io_bind (post_json send c ''/v1/responses'' pl 90) (\<lambda>(st2, j2, _).
             io_bind (io_pure (is_ok st2 j2)) (\<lambda>ok2.
             if ok2
             then io_return (Inl \<lparr>r_ok = True, r_endpoint = ''/v1/responses'',
                                  r_http = st2, r_error = None\<rparr>)
             else io_return (Inr (st2, j2, err_summary j2)))))
           else io_return (Inr (st, j, es)))
          (\<lambda>x. case x of
             Inl r \<Rightarrow> io_return r
           | Inr (st, j, es) \<Rightarrow>
               io_bind (post_json send c ''/v1/chat/completions'' (chat_payload mid) 90)
                 (\<lambda>(st3, j3, _).
               io_bind (io_pure (is_ok st3 j3)) (\<lambda>ok3.
               if ok3
               then io_return \<lparr>r_ok = True, r_endpoint = ''/v1/chat/completions'',
                                r_http = st3, r_error = None\<rparr>
               else
                 io_bind (post_json send c ''/v1/completions'' (completions_payload mid) 90)
                   (\<lambda>(st4, j4, _).
                 io_bind (io_pure (is_ok st4 j4)) (\<lambda>ok4.
                 if ok4
                 then io_return \<lparr>r_ok = True, r_endpoint = ''/v1/completions'',
                                  r_http = st4, r_error = None\<rparr>
                 else
                   io_return
                     \<lparr>r_ok = False,
                      r_endpoint = ''/v1/responses|/v1/chat/completions|/v1/completions'',
                      r_http = st,
                      r_error = Some (first_error es j3 j4)\<rparr>))))))))"

text \<open>
  A probe outcome: the \<open>dict\<close> that \<open>probe_one\<close> returns, or that the loop of \<open>main\<close>
  builds from an exception. The key \<open>note\<close> is present for the video models only
  (\<open>None\<close> when absent, \<open>Some None\<close> when null). \<open>durationMs\<close>, read off the clock,
  is left out.
\<close>

record outcome =
  model :: string
  category :: string
  ok :: bool
  skipped :: bool
  endpoint :: "string option"
  http :: "int option"
  error :: "pydict option"
  note' :: "string option option"

text \<open>The files the run touches: whether a path exists, and the exception (if any) that
  opening it for reading or for writing raises.\<close>

record filesystem =
  path_exists :: "string \<Rightarrow> bool"
  open_rb :: "string \<Rightarrow> exn option"
  open_w :: "string \<Rightarrow> exn option"

text \<open>\<open>len(v)\<close>.\<close>

definition py_len :: "json \<Rightarrow> exn + nat" where
  "py_len v =
     (case v of
        JStr s \<Rightarrow> Inr (length s)
      | JArr xs \<Rightarrow> Inr (length xs)
      | JObj d \<Rightarrow> Inr (length d)
      | _ \<Rightarrow> Inl (Exn ''TypeError'' (''object of type '' @ quoted (type_name v) @ '' has no len()'')))"

text \<open>\<open>probe_one\<close>, lines 223-353. The bodies that are rebound but never read again (the
  redacted realtime session) are left out; \<open>len\<close> in the image branch stays, since it
  can raise.\<close>

definition probe_one ::
  "'w transport \<Rightarrow> filesystem \<Rightarrow> client \<Rightarrow> string \<Rightarrow> string \<Rightarrow> (outcome, 'w) io" where
  "probe_one send fs c mid wav_path =
     (let cat = category_for mid in
      if cat = ''video'' then
        io_bind (post_json send c ''/v1/videos''
                   [(''model'', JStr mid), (''prompt'', JStr ''test''), (''size'', JStr ''bad'')]
                   120) (\<lambda>(st, j, _).
        let es = err_summary j in
        io_bind (if st = 400 \<and> (case es of None \<Rightarrow> False | Some e \<Rightarrow> dget e ''param'' = JStr ''size'')
                 then io_return True else io_pure (is_ok st j)) (\<lambda>ok0.
        let nt = (if st = 400 \<and> ok0 then Some ''validation-only (invalid size)'' else None) in
        io_return \<lparr>model = mid, category = cat, ok = ok0, skipped = False,
                   endpoint = Some ''/v1/videos'', http = Some st,
                   error = (if ok0 then None else es), note' = Some nt\<rparr>))
      else if cat = ''realtime'' then
        io_bind (post_json send c ''/v1/realtime/sessions'' [(''model'', JStr mid)] 60) (\<lambda>(st, j, _).
        let es = err_summary j in
        io_bind (io_pure (is_ok st j)) (\<lambda>ok0.
        io_return \<lparr>model = mid, category = cat, ok = ok0, skipped = False,
                   endpoint = Some ''/v1/realtime/sessions'', http = Some st,
                   error = (if ok0 then None else es), note' = None\<rparr>))
      else if cat = ''embeddings'' then
        io_bind (post_json send c ''/v1/embeddings'' [(''model'', JStr mid), (''input'', JStr ''ping'')] 60) (\<lambda>(st, j, _).
        let es = err_summary j in
        io_bind (io_pure (is_ok st j)) (\<lambda>ok0.
        io_return \<lparr>model = mid, category = cat, ok = ok0, skipped = False,
                   endpoint = Some ''/v1/embeddings'', http = Some st,
                   error = (if ok0 then None else es), note' = None\<rparr>))
      else if cat = ''moderation'' then
        io_bind (post_json send c ''/v1/moderations'' [(''model'', JStr mid), (''input'', JStr ''ping'')] 60) (\<lambda>(st, j, _).
        let es = err_summary j in
        io_bind (io_pure (is_ok st j)) (\<lambda>ok0.
        io_return \<lparr>model = mid, category = cat, ok = ok0, skipped = False,
                   endpoint = Some ''/v1/moderations'', http = Some st,
                   error = (if ok0 then None else es), note' = None\<rparr>))
      else if cat \<in> {''image'', ''dalle''} then
        let size = (if mid = ''dall-e-2'' then ''256x256''
                    else if mid = ''dall-e-3'' then ''1024x1024'' else ''auto'') in
        io_bind (post_json send c ''/v1/images/generations''
                   [(''model'', JStr mid), (''prompt'', JStr ''A tiny red dot''),
                    (''size'', JStr size), (''n'', JInt 1)] 120) (\<lambda>(st, j, _).
        let es = err_summary j in
        io_bind (io_pure (is_ok st j)) (\<lambda>ok0.
        io_bind (case j of
                   JObj d \<Rightarrow>
                     if ok0
                     then io_pure (py_len (if truthy (dget d ''data'') then dget d ''data''
                                           else JArr []))
                     else io_return 0
                 | _ \<Rightarrow> io_return 0) (\<lambda>_.
        io_return \<lparr>model = mid, category = cat, ok = ok0, skipped = False,
                   endpoint = Some ''/v1/images/generations'', http = Some st,
                   error = (if ok0 then None else es), note' = None\<rparr>)))
      else if cat = ''tts'' then
        io_bind (post_json send c ''/v1/audio/speech''
                   [(''model'', JStr mid), (''input'', JStr ''ping''), (''voice'', JStr ''alloy'')]
                   120) (\<lambda>(st, j, hdrs).
        let ok0 = (st = 200 \<and> startswith (content_type hdrs) ''audio/'');
            err = (if \<not> ok0
                   then Some (case err_summary j of
                                Some e \<Rightarrow> e
                              | None \<Rightarrow>
                                  [(''message'', JStr (''http '' @ str_int st)),
                                   (''content_type'',
                                    (case map_of hdrs ''content-type'' of
                                       None \<Rightarrow> JNull | Some v \<Rightarrow> JStr v))])
                   else None) in
        io_return \<lparr>model = mid, category = cat, ok = ok0, skipped = False,
                   endpoint = Some ''/v1/audio/speech'', http = Some st,
                   error = err, note' = None\<rparr>)
      else if cat = ''transcribe'' then
        io_bind (case open_rb fs wav_path of None \<Rightarrow> io_return () | Some e \<Rightarrow> io_raise e) (\<lambda>_.
        io_bind (post_multipart send c ''/v1/audio/transcriptions'' [(''model'', mid)]
                   [(''file'', ''probe.wav'', wav_path, ''audio/wav'')] 120) (\<lambda>(st, j, _).
        let es = err_summary j in
        io_bind (io_pure (is_ok st j)) (\<lambda>ok0.
        io_return \<lparr>model = mid, category = cat, ok = ok0, skipped = False,
                   endpoint = Some ''/v1/audio/transcriptions'', http = Some st,
                   error = (if ok0 then None else es), note' = None\<rparr>)))
      else if cat = ''audio_chat'' then
        io_bind (post_json send c ''/v1/chat/completions'' [(''model'', JStr mid),
                    (''modalities'', JArr [JStr ''text'', JStr ''audio'']),
                    (''audio'', JObj [(''voice'', JStr ''alloy''), (''format'', JStr ''wav'')]),
                    (''messages'', JArr [JObj [(''role'', JStr ''user''),
                                               (''content'', JStr ''Say OK'')]]),
                    (''max_tokens'', JInt 16)] 120) (\<lambda>(st, j, _).
        let es = err_summary j in
        io_bind (io_pure (is_ok st j)) (\<lambda>ok0.
        io_return \<lparr>model = mid, category = cat, ok = ok0, skipped = False,
                   endpoint = Some ''/v1/chat/completions'', http = Some st,
                   error = (if ok0 then None else es), note' = None\<rparr>))
      else if cat = ''computer_use'' then
        io_bind (probe_text_like send c mid (Some [(''truncation'', JStr ''auto'')])) (\<lambda>r.
        io_return \<lparr>model = mid, category = cat, ok = r_ok r, skipped = False,
                   endpoint = Some (r_endpoint r), http = Some (r_http r),
                   error = r_error r, note' = None\<rparr>)
      else if cat = ''deep_research'' then
        io_bind (probe_text_like send c mid (Some [(''tools'', JArr [JObj [(''type'', JStr ''web_search_preview'')]])])) (\<lambda>r.
        io_return \<lparr>model = mid, category = cat, ok = r_ok r, skipped = False,
                   endpoint = Some (r_endpoint r), http = Some (r_http r),
                   error = r_error r, note' = None\<rparr>)
      else if cat = ''search'' then
        io_bind (post_json send c ''/v1/chat/completions'' [(''model'', JStr mid),
                    (''messages'', JArr [JObj [(''role'', JStr ''user''),
                       (''content'', JStr ''What is 1+1? Reply with OK.'')]]),
                    (''max_tokens'', JInt 32)] 120) (\<lambda>(st, j, _).
        let es = err_summary j in
        io_bind (io_pure (is_ok st j)) (\<lambda>ok0.
        io_return \<lparr>model = mid, category = cat, ok = ok0, skipped = False,
                   endpoint = Some ''/v1/chat/completions'', http = Some st,
                   error = (if ok0 then None else es), note' = None\<rparr>))
      else
        io_bind (probe_text_like send c mid None) (\<lambda>r.
        io_return \<lparr>model = mid, category = cat, ok = r_ok r, skipped = False,
                   endpoint = Some (r_endpoint r), http = Some (r_http r),
                   error = r_error r, note' = None\<rparr>))"

section \<open>The orchestrator\<close>

text \<open>The parsed command line and the two environment variables \<open>main\<close> reads.\<close>

record args =
  arg_base_url :: string
  arg_auth_mode :: string
  out_json :: string
  out_md :: string
  arg_sleep_ms :: int

record environ =
  OPENAI_API_KEY :: "string option"
  OPENAI_PROBE_WAV :: "string option"

text \<open>\<open>for m in v\<close>: the items of a list, the keys of a \<open>dict\<close>, the characters of a
  string; the other objects are not iterable.\<close>

definition py_iter :: "json \<Rightarrow> exn + json list" where
  "py_iter v =
     (case v of
        JArr xs \<Rightarrow> Inr xs
      | JObj d \<Rightarrow> Inr (map (\<lambda>(k, _). JStr k) d)
      | JStr s \<Rightarrow> Inr (map (\<lambda>ch. JStr [ch]) s)
      | _ \<Rightarrow> Inl (Exn ''TypeError'' (quoted (type_name v) @ '' object is not iterable'')))"

text \<open>The elements of the set comprehension of line 446, in the order of the listing:
  \<open>m.get("id").strip().lower()\<close> for each \<open>dict\<close> with a true \<open>id\<close>; an \<open>id\<close> that is
  true and not a string has no \<open>strip\<close>.\<close>

fun collect_ids :: "json list \<Rightarrow> exn + string list" where
  "collect_ids [] = Inr []"
| "collect_ids (m # ms) =
     (case m of
        JObj d \<Rightarrow>
          if truthy (dget d ''id'')
          then (case dget d ''id'' of
                  JStr s \<Rightarrow>
                    (case collect_ids ms of
                       Inl e \<Rightarrow> Inl e
                     | Inr xs \<Rightarrow> Inr (lower (strip s) # xs))
                | v \<Rightarrow> Inl (no_attribute v ''strip''))
          else collect_ids ms
      | _ \<Rightarrow> collect_ids ms)"

text \<open>Lines 445-446: \<open>models\<close> and \<open>model_ids\<close>.\<close>

definition model_ids :: "json \<Rightarrow> exn + string list" where
  "model_ids models_resp =
     (let models = (case models_resp of
                      JObj d \<Rightarrow> (case map_of d ''data'' of None \<Rightarrow> JArr [] | Some v \<Rightarrow> v)
                    | _ \<Rightarrow> JArr [])
      in case py_iter models of
           Inl e \<Rightarrow> Inl e
         | Inr ms \<Rightarrow>
             (case collect_ids ms of
                Inl e \<Rightarrow> Inl e
              | Inr xs \<Rightarrow> Inr (sort (remdups xs))))"

text \<open>The outcome of the \<open>except\<close> branch, lines 457-466.\<close>

definition failed :: "string \<Rightarrow> exn \<Rightarrow> outcome" where
  "failed mid e =
     \<lparr>model = mid, category = category_for mid, ok = False, skipped = False,
      endpoint = None, http = None,
      error = Some [(''message'', JStr (''exception: '' @ exn_type e @ '': '' @ exn_str e))],
      note' = None\<rparr>"

text \<open>The \<open>try\<close> statement of lines 453-466.\<close>

definition guarded ::
  "'w transport \<Rightarrow> filesystem \<Rightarrow> client \<Rightarrow> string \<Rightarrow> string \<Rightarrow> 'w world \<Rightarrow> outcome \<times> 'w world" where
  "guarded send fs c mid wav_path w =
     (case probe_one send fs c mid wav_path w of
        (Inr r, w') \<Rightarrow> (r, w')
      | (Inl e, w') \<Rightarrow> (failed mid e, w'))"

text \<open>The loop of lines 451-473 from its \<open>i\<close>-th round on, over the identifiers still to
  probe, with the results so far; \<open>n\<close> is \<open>len(model_ids)\<close>.\<close>

fun probe_all ::
  "'w transport \<Rightarrow> filesystem \<Rightarrow> client \<Rightarrow> string \<Rightarrow> int \<Rightarrow> nat \<Rightarrow> nat \<Rightarrow> string list
     \<Rightarrow> outcome list \<Rightarrow> 'w world \<Rightarrow> outcome list \<times> 'w world" where
  "probe_all send fs c wav_path ms n i [] results w = (results, w)"
| "probe_all send fs c wav_path ms n i (mid # rest) results w =
     (let (r, w1) = guarded send fs c mid wav_path w;
          results' = results @ [r];
          w2 = (if i mod 10 = 0
                then emit (Stderr (Progress i n (length (filter ok results')))) w1
                else w1);
          w3 = emit (Slept (max 0 ms)) w2
      in probe_all send fs c wav_path ms n (Suc i) rest results' w3)"

text \<open>
  \<open>write_md\<close>, lines 356-419, as far as it can fail: the text it writes is not
  modelled. In the table of the failed models \<open>(msg or "").replace\<close> needs a message
  that is false or a string; the file is opened last.
\<close>

definition md_row :: "outcome \<Rightarrow> exn + unit" where
  "md_row r =
     (let err = (case error r of None \<Rightarrow> [] | Some d \<Rightarrow> d);
          msg = dget err ''message'';
          msg' = (if truthy msg then msg else JStr [])
      in case msg' of JStr s \<Rightarrow> Inr () | v \<Rightarrow> Inl (no_attribute v ''replace''))"

fun md_rows :: "outcome list \<Rightarrow> exn + unit" where
  "md_rows [] = Inr ()"
| "md_rows (r # rs) = (case md_row r of Inl e \<Rightarrow> Inl e | Inr _ \<Rightarrow> md_rows rs)"

definition write_md :: "filesystem \<Rightarrow> string \<Rightarrow> outcome list \<Rightarrow> (unit, 'w) io" where
  "write_md fs path results =
     (let fails = filter (\<lambda>r. \<not> ok r \<and> \<not> skipped r) results
      in io_bind (io_pure (md_rows (sort_key (\<lambda>x. (category x, model x)) fails))) (\<lambda>_.
         case open_w fs path of
           Some e \<Rightarrow> io_raise e
         | None \<Rightarrow> (\<lambda>w. (Inr (), emit (Wrote_md path) w))))"

text \<open>
  A run of \<open>main\<close>: the value it returns or the exception that leaves it, the list
  \<open>results\<close> as it stands at that moment (empty before line 448), and the world.
\<close>

record 'w run =
  status :: "exn + int"
  results :: "outcome list"
  final :: "'w world"

text \<open>\<open>main\<close>, lines 422-491, after the parsing of the command line.\<close>

definition main :: "'w transport \<Rightarrow> filesystem \<Rightarrow> args \<Rightarrow> environ \<Rightarrow> 'w world \<Rightarrow> 'w run" where
  "main send fs a env w =
     (let c = \<lparr>base_url = arg_base_url a, api_key = OPENAI_API_KEY env,
               auth_mode = arg_auth_mode a\<rparr>;
          wav_path = (case OPENAI_PROBE_WAV env of None \<Rightarrow> ''/tmp/openai-probe.wav'' | Some p \<Rightarrow> p)
      in
      if \<not> path_exists fs wav_path
      then \<lparr>status = Inr 2, results = [], final = emit (Stderr (Missing_wav wav_path)) w\<rparr>
      else
        case get_models send c w of
          (Inl e, w1) \<Rightarrow> \<lparr>status = Inl e, results = [], final = w1\<rparr>
        | (Inr (st, models_resp), w1) \<Rightarrow>
            if st \<noteq> 200
            then \<lparr>status = Inr 3, results = [],
                  final = emit (Stderr (Models_failed st models_resp)) w1\<rparr>
            else
              (case model_ids models_resp of
                 Inl e \<Rightarrow> \<lparr>status = Inl e, results = [], final = w1\<rparr>
               | Inr ids \<Rightarrow>
                   (case probe_all send fs c wav_path (arg_sleep_ms a) (length ids) 1 ids [] w1 of
                      (rs, w2) \<Rightarrow>
                        (case open_w fs (out_json a) of
                           Some e \<Rightarrow> \<lparr>status = Inl e, results = rs, final = w2\<rparr>
                         | None \<Rightarrow>
                             (case write_md fs (out_md a) rs (emit (Dumped (out_json a)) w2) of
                                (Inl e, w3) \<Rightarrow> \<lparr>status = Inl e, results = rs, final = w3\<rparr>
                              | (Inr _, w3) \<Rightarrow> \<lparr>status = Inr 0, results = rs, final = w3\<rparr>)))))"

text \<open>The exit status of the process: \<open>raise SystemExit(main())\<close>; an exception that
  leaves \<open>main\<close> ends the interpreter with status 1.\<close>

definition exit_code :: "exn + int \<Rightarrow> int" where
  "exit_code s = (case s of Inl e \<Rightarrow> 1 | Inr n \<Rightarrow> n)"

section \<open>The classifier as the specification words it\<close>

text \<open>The thirteen rules of section 4.2 in their listed order, each a test on the
  lower-cased identifier and the category it gives; the first rule that matches wins.\<close>

definition classifier_rules :: "((string \<Rightarrow> bool) \<times> string) list" where
  "classifier_rules =
     [(\<lambda>m. startswith m ''sora-'', ''video''),
      (\<lambda>m. str_contains ''realtime'' m, ''realtime''),
      (\<lambda>m. str_contains ''computer-use'' m, ''computer_use''),
      (\<lambda>m. str_contains ''moderation'' m, ''moderation''),
      (\<lambda>m. str_contains ''embedding'' m, ''embeddings''),
      (\<lambda>m. str_contains ''transcribe'' m \<or> m = ''whisper-1'', ''transcribe''),
      (\<lambda>m. startswith m ''tts-'' \<or> str_contains ''-tts'' m, ''tts''),
      (\<lambda>m. str_contains ''audio-preview'' m \<or> startswith m ''gpt-audio'', ''audio_chat''),
      (\<lambda>m. str_contains ''deep-research'' m, ''deep_research''),
      (\<lambda>m. str_contains ''search-api'' m \<or> str_contains ''search-preview'' m
            \<or> str_contains ''search'' m, ''search''),
      (\<lambda>m. m = ''dall-e-2'' \<or> m = ''dall-e-3'', ''dalle''),
      (\<lambda>m. str_contains ''image'' m, ''image''),
      (\<lambda>m. True, ''text'')]"

fun first_match :: "((string \<Rightarrow> bool) \<times> string) list \<Rightarrow> string \<Rightarrow> string option" where
  "first_match [] m = None"
| "first_match ((p, cat) # rules) m = (if p m then Some cat else first_match rules m)"

definition categorize :: "string \<Rightarrow> string option" where
  "categorize identifier = first_match classifier_rules (lower identifier)"

text \<open>The fixed enumeration of section 3.\<close>

definition categories :: "string list" where
  "categories =
     [''video'', ''realtime'', ''computer_use'', ''moderation'', ''embeddings'', ''transcribe'',
      ''tts'', ''audio_chat'', ''deep_research'', ''search'', ''dalle'', ''image'', ''text'']"

section \<open>A scripted server\<close>

text \<open>A server that answers the requests with the replies of a list, in order, whatever
  the request; the connection fails once the list is used up.\<close>

definition scripted :: "reply list transport" where
  "scripted rq s =
     (case s of
        [] \<Rightarrow> (Raises (Exn ''ConnectionError'' ''connection refused''), [])
      | r # rs \<Rightarrow> (r, rs))"

text \<open>A response with a JSON body and no headers.\<close>

definition json_response :: "int \<Rightarrow> json \<Rightarrow> reply" where
  "json_response st j =
     Response \<lparr>status_code = st, resp_headers = [], resp_text = [], resp_json = Some j\<rparr>"

section \<open>Observing a run\<close>

text \<open>The client that \<open>main\<close> builds (lines 431-432) and the path of the audio fixture
  (line 435).\<close>

definition wav_path_of :: "environ \<Rightarrow> string" where
  "wav_path_of env = (case OPENAI_PROBE_WAV env of None \<Rightarrow> ''/tmp/openai-probe.wav'' | Some p \<Rightarrow> p)"

definition client_of :: "args \<Rightarrow> environ \<Rightarrow> client" where
  "client_of a env = \<lparr>base_url = arg_base_url a, api_key = OPENAI_API_KEY env,
               auth_mode = arg_auth_mode a\<rparr>"


text \<open>The effects between two worlds of a run, and the number of requests among some
  effects that went to a given URL.\<close>

definition effects :: "'w world \<Rightarrow> 'w world \<Rightarrow> event list" where
  "effects w w' = drop (length (trace w)) (trace w')"

definition posts_to :: "string \<Rightarrow> event list \<Rightarrow> nat" where
  "posts_to u evs = length (filter (\<lambda>ev. case ev of Sent rq \<Rightarrow> url rq = u | _ \<Rightarrow> False) evs)"

text \<open>The request that \<open>post_json\<close> hands to \<open>requests.post\<close>, given the headers, and
  the effects of a call of \<open>post_json\<close>: that one request, or nothing when the headers
  cannot be built.\<close>

definition json_post :: "client \<Rightarrow> string \<Rightarrow> pydict \<Rightarrow> int \<Rightarrow> (string \<times> string) list \<Rightarrow> request" where
  "json_post c path pl tmo hs = \<lparr>verb = ''POST'', url = client_url c path, headers = hs,
                 payload = Json_body pl, timeout = tmo\<rparr>"

definition sent_by :: "client \<Rightarrow> string \<Rightarrow> pydict \<Rightarrow> int \<Rightarrow> event list" where
  "sent_by c p pl t = (case headers_json c of Inl e \<Rightarrow> [] | Inr hs \<Rightarrow> [Sent (json_post c p pl t hs)])"

text \<open>Two parts of \<open>probe_text_like\<close> under names of their own, for the proofs: the
  block of the retry (lines 186-190) and the two fallback endpoints (lines 193-220).\<close>

definition fallbacks ::
  "'w transport \<Rightarrow> client \<Rightarrow> string \<Rightarrow> int \<Rightarrow> pydict option \<Rightarrow> (chain_result, 'w) io" where
  "fallbacks send c mid st es =
     io_bind (post_json send c ''/v1/chat/completions'' (chat_payload mid) 90)
       (\<lambda>(st3, j3, _).
     io_bind (io_pure (is_ok st3 j3)) (\<lambda>ok3.
     if ok3
     then io_return \<lparr>r_ok = True, r_endpoint = ''/v1/chat/completions'',
                      r_http = st3, r_error = None\<rparr>
     else
       io_bind (post_json send c ''/v1/completions'' (completions_payload mid) 90)
         (\<lambda>(st4, j4, _).
       io_bind (io_pure (is_ok st4 j4)) (\<lambda>ok4.
       if ok4
       then io_return \<lparr>r_ok = True, r_endpoint = ''/v1/completions'',
                        r_http = st4, r_error = None\<rparr>
       else
         io_return
           \<lparr>r_ok = False,
            r_endpoint = ''/v1/responses|/v1/chat/completions|/v1/completions'',
            r_http = st,
            r_error = Some (first_error es j3 j4)\<rparr>))))"

definition retry ::
  "'w transport \<Rightarrow> client \<Rightarrow> string \<Rightarrow> pydict option \<Rightarrow> (chain_result + int \<times> json \<times> pydict option, 'w) io" where
  "retry send c mid extra =
             io_bind (sleep_ms 500) (\<lambda>_.
             io_bind (post_json send c ''/v1/responses'' (responses_payload mid extra) 90) (\<lambda>(st2, j2, _).
             io_bind (io_pure (is_ok st2 j2)) (\<lambda>ok2.
             if ok2
             then io_return (Inl \<lparr>r_ok = True, r_endpoint = ''/v1/responses'',
                                  r_http = st2, r_error = None\<rparr>)
             else io_return (Inr (st2, j2, err_summary j2)))))"

section \<open>Words of the specification\<close>

text \<open>The first summary that is available among several, and strings joined by a
  separator.\<close>

fun first_available :: "'a option list \<Rightarrow> 'a option" where
  "first_available [] = None"
| "first_available (None # xs) = first_available xs"
| "first_available (Some x # xs) = Some x"

fun join :: "string \<Rightarrow> string list \<Rightarrow> string" where
  "join sep [] = []"
| "join sep [x] = x"
| "join sep (x # y # ys) = x @ sep @ join sep (y # ys)"


section \<open>Sample data\<close>

definition demo_client :: client where
  "demo_client = \<lparr>base_url = ''https://api.openai.com/'', api_key = Some ''sk-test'',
                   auth_mode = ''bearer''\<rparr>"

definition error_body :: "string \<Rightarrow> string \<Rightarrow> json" where
  "error_body ty msg = JObj [(''error'', JObj [(''type'', JStr ty), (''message'', JStr msg)])]"

definition demo_fs :: filesystem where
  "demo_fs = \<lparr>path_exists = (\<lambda>p. True), open_rb = (\<lambda>p. None), open_w = (\<lambda>p. None)\<rparr>"

definition demo_args :: args where
  "demo_args = \<lparr>arg_base_url = ''https://api.openai.com'', arg_auth_mode = ''bearer'',
                 out_json = ''probe.json'', out_md = ''probe.md'', arg_sleep_ms = 50\<rparr>"

definition demo_env :: environ where
  "demo_env = \<lparr>OPENAI_API_KEY = Some ''sk-test'', OPENAI_PROBE_WAV = None\<rparr>"

text \<open>The listing of the scenario of section 8.\<close>

definition demo_listing :: json where
  "demo_listing =
     JObj [(''data'', JArr [JObj [(''id'', JStr ''gpt-4o'')],
                            JObj [(''id'', JStr ''DALL-E-3'')],
                            JObj [(''id'', JStr ''whisper-1'')]])]"

text \<open>A file system without the audio fixture.\<close>

definition no_wav_fs :: filesystem where
  "no_wav_fs = \<lparr>path_exists = (\<lambda>p. False),
                 open_rb = (\<lambda>p. Some (Exn ''FileNotFoundError'' ''No such file or directory'')),
                 open_w = (\<lambda>p. None)\<rparr>"

section \<open>Properties of the classifier\<close>

text \<open>
  C1. For every identifier \<open>category_for\<close> returns a category (it is a total function of
  the identifier alone), the category is the one of the first rule of section 4.2,
  in the listed order, that the lower-cased identifier matches, and it is one of the
  thirteen of the fixed enumeration. An identifier that matches several rules, such as
  \<open>gpt-audio-search-preview\<close> (rules 8 and 10), gets the category of the earlier one.
\<close>

theorem category_for_first_match:
  "categorize mid = Some (category_for mid)
   \<and> category_for mid \<in> set categories
   \<and> map snd classifier_rules = categories
   \<and> length classifier_rules = 13
   \<and> category_for ''gpt-audio-search-preview'' = ''audio_chat''"
proof -
  have first: "categorize mid = Some (category_for mid)"
    by (simp add: categorize_def category_for_def classifier_rules_def Let_def)
  have member: "category_for mid \<in> set categories"
    by (simp add: category_for_def categories_def Let_def)
  have names: "map snd classifier_rules = categories"
    by (simp add: classifier_rules_def categories_def)
  have example: "category_for ''gpt-audio-search-preview'' = ''audio_chat''"
    by (simp add: category_for_def lower_def lower_char_def)
  have thirteen: "length classifier_rules = 13"
    by (simp add: classifier_rules_def)
  from first member names thirteen example show ?thesis by blast
qed

section \<open>Properties of the error summary\<close>

text \<open>
  C6. For an error envelope whose message is a string, the summary stores the first 237
  characters followed by the three characters \<open>...\<close>, 240 characters in all, when the
  message is longer than 240 characters, and the message itself otherwise.
\<close>

theorem err_summary_truncates:
  assumes "dget d ''error'' = JObj err" and "dget err ''message'' = JStr s"
  shows "\<exists>es t. err_summary (JObj d) = Some es \<and> dget es ''message'' = JStr t
           \<and> (240 < length s \<longrightarrow> t = take 237 s @ ''...'' \<and> length t = 240)
           \<and> (length s \<le> 240 \<longrightarrow> t = s)"
  using assms by (simp add: err_summary_def dget_def Let_def)

theorem err_summary_truncates_witness:
  "(\<exists>es t. err_summary (JObj [(''error'', JObj [(''message'', JStr (replicate 241 CHR ''x''))])])
              = Some es
       \<and> dget es ''message'' = JStr t \<and> t = replicate 237 CHR ''x'' @ ''...'' \<and> length t = 240)
 \<and> (\<exists>es. err_summary (JObj [(''error'', JObj [(''message'', JStr ''boom'')])]) = Some es
       \<and> dget es ''message'' = JStr ''boom'')"
  using err_summary_truncates
    [of "[(''error'', JObj [(''message'', JStr (replicate 241 CHR ''x''))])]"
        "[(''message'', JStr (replicate 241 CHR ''x''))]" "replicate 241 CHR ''x''"]
    err_summary_truncates
    [of "[(''error'', JObj [(''message'', JStr ''boom'')])]"
        "[(''message'', JStr ''boom'')]" "''boom''"]
  by (simp add: dget_def)

section \<open>The fallback chain: auxiliary facts\<close>

lemma probe_text_like_unfold:
  "probe_text_like send c mid extra =
      io_bind (post_json send c ''/v1/responses'' (responses_payload mid extra) 90) (\<lambda>(st, j, _).
      io_bind (io_pure (is_ok st j)) (\<lambda>ok1.
      if ok1
      then io_return \<lparr>r_ok = True, r_endpoint = ''/v1/responses'', r_http = st, r_error = None\<rparr>
      else
        io_bind
          (if (case err_summary j of None \<Rightarrow> False | Some e \<Rightarrow> dget e ''type'' = JStr ''server_error'')
           then retry send c mid extra
           else io_return (Inr (st, j, err_summary j)))
          (\<lambda>x. case x of
             Inl r \<Rightarrow> io_return r
           | Inr (st, j, es) \<Rightarrow> fallbacks send c mid st es)))"
  unfolding probe_text_like_def retry_def fallbacks_def Let_def by (rule refl)

lemma io_bind_Inr: "m w = (Inr x, w') \<Longrightarrow> io_bind m f w = f x w'"
  by (simp add: io_bind_def)

lemma io_bind_Inl: "m w = (Inl e, w') \<Longrightarrow> io_bind m f w = (Inl e, w')"
  by (simp add: io_bind_def)

lemma io_pure_apply [simp]: "io_pure r w = (r, w)" by (simp add: io_pure_def)
lemma io_return_apply [simp]: "io_return x w = (Inr x, w)" by (simp add: io_return_def)
lemma io_raise_apply [simp]: "io_raise e w = (Inl e, w)" by (simp add: io_raise_def)

lemma envelope_not_ok:
  assumes "err_summary j = Some es" and "dget es ''type'' = JStr ''server_error''"
  shows "is_ok st j = Inr False"
  using assms
  by (auto simp: err_summary_def is_ok_def jget_def dget_def Let_def split: json.splits)

lemma post_json_trace:
  "trace (snd (post_json send c p pl t w)) =
     trace w @ (case headers_json c of Inl e \<Rightarrow> [] | Inr hs \<Rightarrow> [Sent (json_post c p pl t hs)])"
  by (auto simp: post_json_def io_bind_def http_send_def emit_def Let_def json_post_def
      split: sum.splits prod.splits reply.splits)


lemma post_json_traceD:
  "post_json send c p pl t w = (res, w') \<Longrightarrow> trace w' = trace w @ sent_by c p pl t"
  using post_json_trace [of send c p pl t w] by (simp add: sent_by_def)

lemma post_json_headers:
  "post_json send c p pl t w = (Inr x, w') \<Longrightarrow> \<exists>hs. headers_json c = Inr hs"
  by (auto simp: post_json_def io_bind_def split: sum.splits)

lemma client_url_inject [simp]: "client_url c p = client_url c q \<longleftrightarrow> p = q"
  by (simp add: client_url_def)

lemma posts_to_append [simp]: "posts_to u (xs @ ys) = posts_to u xs + posts_to u ys"
  by (simp add: posts_to_def)

lemma posts_to_Nil [simp]: "posts_to u [] = 0"
  by (simp add: posts_to_def)

lemma posts_to_Slept [simp]: "posts_to u (Slept ms # evs) = posts_to u evs"
  by (simp add: posts_to_def)

lemma posts_to_sent_by:
  "posts_to (client_url c p) (sent_by c q pl t) =
     (case headers_json c of Inl e \<Rightarrow> 0 | Inr hs \<Rightarrow> if p = q then 1 else 0)"
  by (auto simp: posts_to_def sent_by_def json_post_def split: sum.splits)

lemma Slept_sent_by [simp]: "Slept ms \<notin> set (sent_by c p pl t)"
  by (auto simp: sent_by_def split: sum.splits)

lemma effects_append [simp]: "trace w' = trace w @ evs \<Longrightarrow> effects w w' = evs"
  by (simp add: effects_def)

lemma fallbacks_trace:
  "\<exists>evs. trace (snd (fallbacks send c mid st es w)) = trace w @ evs
      \<and> posts_to (client_url c ''/v1/responses'') evs = 0 \<and> (\<forall>ms. Slept ms \<notin> set evs)"
  unfolding fallbacks_def io_bind_def
  by (auto simp: posts_to_sent_by split: prod.splits sum.splits dest!: post_json_traceD)

lemma retry_trace:
  "retry send c mid extra w = (res, w') \<Longrightarrow>
     trace w' = trace w @ Slept 500 # sent_by c ''/v1/responses'' (responses_payload mid extra) 90"
  unfolding retry_def io_bind_def sleep_ms_def
  by (auto simp: emit_def split: prod.splits sum.splits if_splits dest!: post_json_traceD)

lemma fallbacks_result:
  "fallbacks send c mid st es w = (Inr r, w') \<Longrightarrow>
     (r_ok r \<longrightarrow> r_error r = None) \<and> (\<not> r_ok r \<longrightarrow> r_error r \<noteq> None)"
  unfolding fallbacks_def io_bind_def
  by (auto split: prod.splits sum.splits if_splits)

lemma retry_result:
  "retry send c mid extra w = (Inr (Inl r), w') \<Longrightarrow> r_ok r \<and> r_error r = None"
  unfolding retry_def io_bind_def
  by (auto split: prod.splits sum.splits if_splits)

lemma probe_text_like_result:
  assumes "probe_text_like send c mid extra w = (Inr r, w')"
  shows "(r_ok r \<longrightarrow> r_error r = None) \<and> (\<not> r_ok r \<longrightarrow> r_error r \<noteq> None)"
  using assms unfolding probe_text_like_unfold io_bind_def
  by (auto split: prod.splits sum.splits if_splits dest: fallbacks_result retry_result)


lemma sent_by_single:
  "post_json send c p pl t w = (Inr x, w') \<Longrightarrow> \<exists>rq. sent_by c q pl' t' = [Sent rq] \<and> url rq = client_url c q"
  by (auto simp: sent_by_def json_post_def dest!: post_json_headers)

lemmas run_simps =
  post_json_def io_bind_def http_send_def scripted_def json_response_def headers_json_def
  no_key_def emit_def lower_keys_def content_type_def json_or_raw_def client_url_def
  rstrip_slash_def responses_payload_def chat_payload_def completions_payload_def
  demo_client_def error_body_def Let_def is_ok_def jget_def dget_def err_summary_def

section \<open>Properties of the fallback chain\<close>

text \<open>
  C2. Let the first request to the primary endpoint \<open>/v1/responses\<close> be answered. When
  the answer carries an error envelope of type \<open>server_error\<close>, the chain sleeps 0.5
  seconds and sends the same request once more, and after that no further request to
  the primary endpoint and no further sleep; if that second answer is HTTP 200 without
  an error, the result is \<open>ok\<close> with the primary endpoint alone as its endpoint. With any
  other first answer the primary request is sent once, with no sleep.
\<close>

theorem probe_text_like_retry:
  assumes first: "post_json send c ''/v1/responses'' (responses_payload mid extra) 90 w
                    = (Inr (st, j, h), w1)"
  shows "\<exists>rq evs.
           sent_by c ''/v1/responses'' (responses_payload mid extra) 90 = [Sent rq]
         \<and> posts_to (url rq) evs = 0 \<and> (\<forall>ms. Slept ms \<notin> set evs)
         \<and> effects w (snd (probe_text_like send c mid extra w))
             = (if (case err_summary j of None \<Rightarrow> False
                    | Some e \<Rightarrow> dget e ''type'' = JStr ''server_error'')
                then [Sent rq, Slept 500, Sent rq] @ evs
                else Sent rq # evs)
         \<and> (\<forall>j2 h2 w2.
               (case err_summary j of None \<Rightarrow> False
                | Some e \<Rightarrow> dget e ''type'' = JStr ''server_error'')
             \<and> post_json send c ''/v1/responses'' (responses_payload mid extra) 90
                 (emit (Slept 500) w1) = (Inr (200, j2, h2), w2)
             \<and> is_ok 200 j2 = Inr True
             \<longrightarrow> probe_text_like send c mid extra w
                   = (Inr \<lparr>r_ok = True, r_endpoint = ''/v1/responses'', r_http = 200,
                          r_error = None\<rparr>, w2)
                 \<and> effects w w2 = [Sent rq, Slept 500, Sent rq])"
proof -
  let ?pl = "responses_payload mid extra"
  let ?cond = "case err_summary j of None \<Rightarrow> False
               | Some e \<Rightarrow> dget e ''type'' = JStr ''server_error''"
  from sent_by_single [OF first] obtain rq where
    rq: "sent_by c ''/v1/responses'' ?pl 90 = [Sent rq]" and u: "url rq = client_url c ''/v1/responses''"
    by blast
  have t1: "trace w1 = trace w @ [Sent rq]"
    using post_json_traceD [OF first] rq by simp
  show ?thesis
  proof (cases ?cond)
    case False
    have "\<exists>evs. posts_to (url rq) evs = 0 \<and> (\<forall>ms. Slept ms \<notin> set evs)
            \<and> trace (snd (probe_text_like send c mid extra w)) = trace w @ Sent rq # evs"
    proof (cases "is_ok st j")
      case (Inl e)
      then show ?thesis
        using first t1 by (simp add: probe_text_like_unfold io_bind_def)
    next
      case (Inr b)
      show ?thesis
      proof (cases b)
        case True
        then show ?thesis
          using first t1 Inr by (simp add: probe_text_like_unfold io_bind_def)
      next
        case nok: False
        from fallbacks_trace [of send c mid st "err_summary j" w1] obtain evs where
          "trace (snd (fallbacks send c mid st (err_summary j) w1)) = trace w1 @ evs"
          "posts_to (client_url c ''/v1/responses'') evs = 0" "\<forall>ms. Slept ms \<notin> set evs"
          by blast
        then show ?thesis
          using first t1 Inr nok False u by (simp add: probe_text_like_unfold io_bind_def)
      qed
    qed
    then show ?thesis using rq False by (auto simp: effects_def)
  next
    case True
    then obtain es where es: "err_summary j = Some es" "dget es ''type'' = JStr ''server_error''"
      by (auto split: option.splits)
    have nok: "is_ok st j = Inr False" by (rule envelope_not_ok [OF es])
    obtain res w2 where r: "retry send c mid extra w1 = (res, w2)" by (cases "retry send c mid extra w1")
    have t2: "trace w2 = trace w @ [Sent rq, Slept 500, Sent rq]"
      using retry_trace [OF r] t1 rq by simp
    have start: "probe_text_like send c mid extra w =
           (case res of Inl e \<Rightarrow> (Inl e, w2)
            | Inr (Inl x) \<Rightarrow> (Inr x, w2)
            | Inr (Inr (st', j', es')) \<Rightarrow> fallbacks send c mid st' es' w2)"
      using first nok True r
      by (simp add: probe_text_like_unfold io_bind_def split: sum.splits prod.splits)
    have tr: "\<exists>evs. posts_to (url rq) evs = 0 \<and> (\<forall>ms. Slept ms \<notin> set evs)
            \<and> trace (snd (probe_text_like send c mid extra w))
                = trace w @ [Sent rq, Slept 500, Sent rq] @ evs"
    proof (cases res)
      case (Inl e)
      then show ?thesis using start t2 by simp
    next
      case (Inr y)
      show ?thesis
      proof (cases y)
        case (Inl x)
        then show ?thesis using start t2 Inr by simp
      next
        case inner: (Inr z)
        obtain st' j' es' where z: "z = (st', j', es')" by (cases z)
        from fallbacks_trace [of send c mid st' es' w2] obtain evs where
          "trace (snd (fallbacks send c mid st' es' w2)) = trace w2 @ evs"
          "posts_to (client_url c ''/v1/responses'') evs = 0" "\<forall>ms. Slept ms \<notin> set evs"
          by blast
        then show ?thesis using start t2 Inr inner z u by auto
      qed
    qed
    have succ: "probe_text_like send c mid extra w
                   = (Inr \<lparr>r_ok = True, r_endpoint = ''/v1/responses'', r_http = 200,
                          r_error = None\<rparr>, w2')
                 \<and> effects w w2' = [Sent rq, Slept 500, Sent rq]"
      if p2: "post_json send c ''/v1/responses'' ?pl 90 (emit (Slept 500) w1) = (Inr (200, j2, h2), w2')"
        and ok2: "is_ok 200 j2 = Inr True" for j2 h2 w2'
    proof -
      have "retry send c mid extra w1 =
              (Inr (Inl \<lparr>r_ok = True, r_endpoint = ''/v1/responses'', r_http = 200, r_error = None\<rparr>), w2')"
        using p2 ok2 by (simp add: retry_def io_bind_def sleep_ms_def)
      with r have "res = Inr (Inl \<lparr>r_ok = True, r_endpoint = ''/v1/responses'', r_http = 200, r_error = None\<rparr>)"
        and "w2' = w2" by simp_all
      then show ?thesis using start t2 by (simp add: effects_def)
    qed
    from tr obtain evs where evs: "posts_to (url rq) evs = 0" "\<forall>ms. Slept ms \<notin> set evs"
      "trace (snd (probe_text_like send c mid extra w)) = trace w @ [Sent rq, Slept 500, Sent rq] @ evs"
      by blast
    have eff: "effects w (snd (probe_text_like send c mid extra w)) = [Sent rq, Slept 500, Sent rq] @ evs"
      using evs(3) by (simp add: effects_def)
    show ?thesis
      apply (rule exI [of _ rq], rule exI [of _ evs])
      using rq evs(1,2) eff True succ by auto
  qed
qed


theorem probe_text_like_retry_witness:
  "\<exists>rq w2.
     probe_text_like scripted demo_client ''gpt-4o'' None
       \<lparr>server = [json_response 500 (error_body ''server_error'' ''boom''),
                  json_response 200 (JObj [(''id'', JStr ''resp_1'')])],
        trace = []\<rparr>
     = (Inr \<lparr>r_ok = True, r_endpoint = ''/v1/responses'', r_http = 200, r_error = None\<rparr>, w2)
   \<and> trace w2 = [Sent rq, Slept 500, Sent rq] \<and> server w2 = []
   \<and> url rq = ''https://api.openai.com/v1/responses''"
proof -
  let ?w = "\<lparr>server = [json_response 500 (error_body ''server_error'' ''boom''),
                  json_response 200 (JObj [(''id'', JStr ''resp_1'')])],
        trace = []\<rparr>"
  let ?pl = "responses_payload ''gpt-4o'' None"
  let ?rq = "\<lparr>verb = ''POST'', url = ''https://api.openai.com/v1/responses'',
              headers = [(''Content-Type'', ''application/json''),
                         (''Authorization'', ''Bearer sk-test'')],
              payload = Json_body ?pl, timeout = 90\<rparr>"
  let ?w1 = "\<lparr>server = [json_response 200 (JObj [(''id'', JStr ''resp_1'')])],
              trace = [Sent ?rq]\<rparr>"
  let ?w2 = "\<lparr>server = ([] :: reply list), trace = [Sent ?rq, Slept 500, Sent ?rq]\<rparr>"
  have first: "post_json scripted demo_client ''/v1/responses'' ?pl 90 ?w
                 = (Inr (500, error_body ''server_error'' ''boom'', []), ?w1)"
    by (simp add: run_simps)
  have cond: "case err_summary (error_body ''server_error'' ''boom'') of None \<Rightarrow> False
              | Some e \<Rightarrow> dget e ''type'' = JStr ''server_error''"
    by (simp add: run_simps)
  have second: "post_json scripted demo_client ''/v1/responses'' ?pl 90 (emit (Slept 500) ?w1)
                 = (Inr (200, JObj [(''id'', JStr ''resp_1'')], []), ?w2)"
    by (simp add: run_simps)
  have ok2: "is_ok 200 (JObj [(''id'', JStr ''resp_1'')]) = Inr True"
    by (simp add: run_simps)
  have sent: "sent_by demo_client ''/v1/responses'' ?pl 90 = [Sent ?rq]"
    by (simp add: sent_by_def json_post_def run_simps)
  from probe_text_like_retry [OF first] obtain rq evs where
    rq: "sent_by demo_client ''/v1/responses'' ?pl 90 = [Sent rq]"
    and all: "\<forall>j2 h2 w2.
               (case err_summary (error_body ''server_error'' ''boom'') of None \<Rightarrow> False
                | Some e \<Rightarrow> dget e ''type'' = JStr ''server_error'')
             \<and> post_json scripted demo_client ''/v1/responses'' ?pl 90
                 (emit (Slept 500) ?w1) = (Inr (200, j2, h2), w2)
             \<and> is_ok 200 j2 = Inr True
             \<longrightarrow> probe_text_like scripted demo_client ''gpt-4o'' None ?w
                   = (Inr \<lparr>r_ok = True, r_endpoint = ''/v1/responses'', r_http = 200,
                          r_error = None\<rparr>, w2)
                 \<and> effects ?w w2 = [Sent rq, Slept 500, Sent rq]"
    by blast
  from all cond second ok2 have
    res: "probe_text_like scripted demo_client ''gpt-4o'' None ?w
                   = (Inr \<lparr>r_ok = True, r_endpoint = ''/v1/responses'', r_http = 200,
                          r_error = None\<rparr>, ?w2)"
    by blast
  have "rq = ?rq" using rq sent by simp
  with res show ?thesis by (intro exI [of _ ?rq] exI [of _ ?w2]) simp
qed

text \<open>
  C3. When the primary endpoint (after its retry, if the first answer was a
  \<open>server_error\<close>), the chat endpoint and the completions endpoint all answer without
  success, the result is not \<open>ok\<close>, its endpoint is the three paths joined by \<open>|\<close>, its
  status is the last one of the primary endpoint, and its error is the first summary
  available among the last primary answer, the chat answer and the completions
  answer (a generic message when there is none).
\<close>

theorem probe_text_like_all_fail:
  assumes p1: "post_json send c ''/v1/responses'' (responses_payload mid extra) 90 w
                 = (Inr (st1, j1, h1), w1)"
    and f1: "is_ok st1 j1 = Inr False"
    and p2: "if (case err_summary j1 of None \<Rightarrow> False
                 | Some e \<Rightarrow> dget e ''type'' = JStr ''server_error'')
             then post_json send c ''/v1/responses'' (responses_payload mid extra) 90
                    (emit (Slept 500) w1) = (Inr (st2, j2, h2), w2)
                  \<and> is_ok st2 j2 = Inr False
             else (st2, j2, w2) = (st1, j1, w1)"
    and p3: "post_json send c ''/v1/chat/completions'' (chat_payload mid) 90 w2
               = (Inr (st3, j3, h3), w3)"
    and f3: "is_ok st3 j3 = Inr False"
    and p4: "post_json send c ''/v1/completions'' (completions_payload mid) 90 w3
               = (Inr (st4, j4, h4), w4)"
    and f4: "is_ok st4 j4 = Inr False"
  shows "probe_text_like send c mid extra w
           = (Inr \<lparr>r_ok = False,
                   r_endpoint = join ''|'' [''/v1/responses'', ''/v1/chat/completions'',
                                            ''/v1/completions''],
                   r_http = st2,
                   r_error = Some (case first_available
                                          [err_summary j2, err_summary j3, err_summary j4] of
                                     Some e \<Rightarrow> e
                                   | None \<Rightarrow> [(''message'', JStr ''unknown'')])\<rparr>, w4)"
proof -
  have tail: "fallbacks send c mid st2 (err_summary j2) w2
           = (Inr \<lparr>r_ok = False,
                   r_endpoint = ''/v1/responses|/v1/chat/completions|/v1/completions'',
                   r_http = st2,
                   r_error = Some (first_error (err_summary j2) j3 j4)\<rparr>, w4)"
    using p3 f3 p4 f4 by (simp add: fallbacks_def io_bind_def)
  have fe: "first_error (err_summary j2) j3 j4
              = (case first_available [err_summary j2, err_summary j3, err_summary j4] of
                   Some e \<Rightarrow> e
                 | None \<Rightarrow> [(''message'', JStr ''unknown'')])"
    by (simp add: first_error_def split: option.splits)
  have "probe_text_like send c mid extra w = fallbacks send c mid st2 (err_summary j2) w2"
  proof (cases "case err_summary j1 of None \<Rightarrow> False
                 | Some e \<Rightarrow> dget e ''type'' = JStr ''server_error''")
    case True
    with p2 have "retry send c mid extra w1 = (Inr (Inr (st2, j2, err_summary j2)), w2)"
      by (simp add: retry_def io_bind_def sleep_ms_def)
    with p1 f1 True show ?thesis by (simp add: probe_text_like_unfold io_bind_def)
  next
    case False
    with p2 have "st2 = st1" "j2 = j1" "w2 = w1" by simp_all
    with p1 f1 False show ?thesis by (simp add: probe_text_like_unfold io_bind_def)
  qed
  with tail fe show ?thesis by simp
qed

theorem probe_text_like_all_fail_witness:
  "\<exists>w4.
     probe_text_like scripted demo_client ''gpt-4o'' None
       \<lparr>server = [json_response 500 (error_body ''server_error'' ''boom''),
                  json_response 503 (error_body ''server_error'' ''boom again''),
                  json_response 404 (error_body ''invalid_request_error'' ''no chat''),
                  Response \<lparr>status_code = 404, resp_headers = [], resp_text = ''Not Found'',
                            resp_json = None\<rparr>],
        trace = []\<rparr>
     = (Inr \<lparr>r_ok = False,
             r_endpoint = ''/v1/responses|/v1/chat/completions|/v1/completions'',
             r_http = 503,
             r_error = Some [(''type'', JStr ''server_error''), (''code'', JNull),
                             (''param'', JNull), (''message'', JStr ''boom again'')]\<rparr>, w4)
   \<and> server w4 = [] \<and> length (trace w4) = 5"
proof -
  let ?w = "\<lparr>server = [json_response 500 (error_body ''server_error'' ''boom''),
                  json_response 503 (error_body ''server_error'' ''boom again''),
                  json_response 404 (error_body ''invalid_request_error'' ''no chat''),
                  Response \<lparr>status_code = 404, resp_headers = [], resp_text = ''Not Found'',
                            resp_json = None\<rparr>],
        trace = []\<rparr>"
  let ?pl = "responses_payload ''gpt-4o'' None"
  let ?w1 = "snd (post_json scripted demo_client ''/v1/responses'' ?pl 90 ?w)"
  let ?w2 = "snd (post_json scripted demo_client ''/v1/responses'' ?pl 90 (emit (Slept 500) ?w1))"
  let ?w3 = "snd (post_json scripted demo_client ''/v1/chat/completions''
                    (chat_payload ''gpt-4o'') 90 ?w2)"
  let ?w4 = "snd (post_json scripted demo_client ''/v1/completions''
                    (completions_payload ''gpt-4o'') 90 ?w3)"
  have p1: "post_json scripted demo_client ''/v1/responses'' ?pl 90 ?w
              = (Inr (500, error_body ''server_error'' ''boom'', []), ?w1)"
    by (simp add: run_simps)
  have f1: "is_ok 500 (error_body ''server_error'' ''boom'') = Inr False"
    by (simp add: run_simps)
  have p2: "if (case err_summary (error_body ''server_error'' ''boom'') of None \<Rightarrow> False
                 | Some e \<Rightarrow> dget e ''type'' = JStr ''server_error'')
             then post_json scripted demo_client ''/v1/responses'' ?pl 90 (emit (Slept 500) ?w1)
                    = (Inr (503, error_body ''server_error'' ''boom again'', []), ?w2)
                  \<and> is_ok 503 (error_body ''server_error'' ''boom again'') = Inr False
             else (503, error_body ''server_error'' ''boom again'', ?w2)
                    = (500, error_body ''server_error'' ''boom'', ?w1)"
    by (simp add: run_simps)
  have p3: "post_json scripted demo_client ''/v1/chat/completions'' (chat_payload ''gpt-4o'') 90 ?w2
              = (Inr (404, error_body ''invalid_request_error'' ''no chat'', []), ?w3)"
    by (simp add: run_simps)
  have f3: "is_ok 404 (error_body ''invalid_request_error'' ''no chat'') = Inr False"
    by (simp add: run_simps)
  have p4: "post_json scripted demo_client ''/v1/completions'' (completions_payload ''gpt-4o'') 90 ?w3
              = (Inr (404, JObj [(''_raw'', JStr ''Not Found'')], []), ?w4)"
    by (simp add: run_simps)
  have f4: "is_ok 404 (JObj [(''_raw'', JStr ''Not Found'')]) = Inr False"
    by (simp add: run_simps)
  have fin: "server ?w4 = [] \<and> length (trace ?w4) = 5"
    by (simp add: run_simps)
  have e: "(case first_available
                  [err_summary (error_body ''server_error'' ''boom again''),
                   err_summary (error_body ''invalid_request_error'' ''no chat''),
                   err_summary (JObj [(''_raw'', JStr ''Not Found'')])] of
             Some e \<Rightarrow> e
           | None \<Rightarrow> [(''message'', JStr ''unknown'')])
          = [(''type'', JStr ''server_error''), (''code'', JNull),
             (''param'', JNull), (''message'', JStr ''boom again'')]"
    by (simp add: run_simps)
  show ?thesis
    using probe_text_like_all_fail [OF p1 f1 p2 p3 f3 p4 f4] fin e
    by (intro exI [of _ ?w4]) simp
qed

section \<open>Single probes: auxiliary facts\<close>

lemma probe_one_ok_error:
  assumes "probe_one send fs c mid wav w = (Inr r, w')"
  shows "ok r \<longrightarrow> error r = None"
  using assms unfolding probe_one_def Let_def io_bind_def
  by (auto split: prod.splits sum.splits if_splits option.splits json.splits
           dest: probe_text_like_result)

lemma probe_one_failed_error:
  assumes "probe_one send fs c mid wav w = (Inr r, w')"
    and "category_for mid \<in> {''computer_use'', ''deep_research'', ''text'', ''tts''}"
    and "\<not> ok r"
  shows "error r \<noteq> None"
  using assms unfolding probe_one_def Let_def io_bind_def
  by (auto split: prod.splits sum.splits if_splits option.splits dest: probe_text_like_result)

lemma video_branch:
  "category_for mid = ''video'' \<Longrightarrow>
   probe_one send fs c mid wav =
        io_bind (post_json send c ''/v1/videos''
                   [(''model'', JStr mid), (''prompt'', JStr ''test''), (''size'', JStr ''bad'')]
                   120) (\<lambda>(st, j, _).
        let es = err_summary j in
        io_bind (if st = 400 \<and> (case es of None \<Rightarrow> False | Some e \<Rightarrow> dget e ''param'' = JStr ''size'')
                 then io_return True else io_pure (is_ok st j)) (\<lambda>ok0.
        let nt = (if st = 400 \<and> ok0 then Some ''validation-only (invalid size)'' else None) in
        io_return \<lparr>model = mid, category = ''video'', ok = ok0, skipped = False,
                   endpoint = Some ''/v1/videos'', http = Some st,
                   error = (if ok0 then None else es), note' = Some nt\<rparr>))"
  by (simp add: probe_one_def Let_def)

lemmas probe_simps = run_simps probe_one_def category_for_def lower_def lower_char_def demo_fs_def

section \<open>Properties of the single probes\<close>

text \<open>
  C4. For a model of the category \<open>video\<close> whose request is answered, the probe sends
  one request, to \<open>/v1/videos\<close>, with the size \<open>bad\<close>. An outcome it returns is \<open>ok\<close>
  exactly when the answer is HTTP 400 with an error envelope whose \<open>param\<close> is \<open>size\<close>,
  or HTTP 200 with a body whose \<open>error\<close> is absent or false. When it is \<open>ok\<close> on
  HTTP 400 the note is set and the error is null; otherwise the note is null.
\<close>

theorem probe_one_video:
  assumes cat: "category_for mid = ''video''"
    and post: "post_json send c ''/v1/videos''
                 [(''model'', JStr mid), (''prompt'', JStr ''test''), (''size'', JStr ''bad'')] 120 w
               = (Inr (st, j, h), w1)"
    and run: "probe_one send fs c mid wav w = (Inr r, w')"
  shows "effects w w' = sent_by c ''/v1/videos''
                          [(''model'', JStr mid), (''prompt'', JStr ''test''), (''size'', JStr ''bad'')] 120
       \<and> length (effects w w') = 1
       \<and> (ok r \<longleftrightarrow>
            (st = 400 \<and> (\<exists>e. err_summary j = Some e \<and> dget e ''param'' = JStr ''size''))
          \<or> (st = 200 \<and> (\<exists>d. j = JObj d \<and> \<not> truthy (dget d ''error''))))
       \<and> (if st = 400 \<and> ok r
           then note' r = Some (Some ''validation-only (invalid size)'') \<and> error r = None
           else note' r = Some None)"
proof -
  have w': "w' = w1"
    using run post by (auto simp: video_branch [OF cat] io_bind_def Let_def split: sum.splits if_splits)
  from sent_by_single [OF post] obtain rq where
    "sent_by c ''/v1/videos'' [(''model'', JStr mid), (''prompt'', JStr ''test''), (''size'', JStr ''bad'')] 120 = [Sent rq]"
    by blast
  with post_json_traceD [OF post] w' have eff: "effects w w' = sent_by c ''/v1/videos''
                          [(''model'', JStr mid), (''prompt'', JStr ''test''), (''size'', JStr ''bad'')] 120
       \<and> length (effects w w') = 1"
    by simp
  have okr: "ok r \<longleftrightarrow>
            (st = 400 \<and> (\<exists>e. err_summary j = Some e \<and> dget e ''param'' = JStr ''size''))
          \<or> (st = 200 \<and> (\<exists>d. j = JObj d \<and> \<not> truthy (dget d ''error'')))"
    using run post
    by (auto simp: video_branch [OF cat] io_bind_def Let_def is_ok_def jget_def
        split: sum.splits if_splits option.splits json.splits)
  have nt: "if st = 400 \<and> ok r
           then note' r = Some (Some ''validation-only (invalid size)'') \<and> error r = None
           else note' r = Some None"
    using run post
    by (auto simp: video_branch [OF cat] io_bind_def Let_def
        split: sum.splits if_splits option.splits)
  from eff okr nt show ?thesis by blast
qed

theorem probe_one_video_witness:
  "\<exists>r w'.
     probe_one scripted demo_fs demo_client ''sora-2'' ''/tmp/openai-probe.wav''
       \<lparr>server = [json_response 400
                    (JObj [(''error'', JObj [(''param'', JStr ''size''),
                                             (''message'', JStr ''invalid size'')])])],
        trace = []\<rparr> = (Inr r, w')
   \<and> ok r \<and> note' r = Some (Some ''validation-only (invalid size)'') \<and> error r = None
   \<and> length (effects \<lparr>server = [json_response 400
                    (JObj [(''error'', JObj [(''param'', JStr ''size''),
                                             (''message'', JStr ''invalid size'')])])],
        trace = []\<rparr> w') = 1"
proof -
  let ?body = "JObj [(''error'', JObj [(''param'', JStr ''size''),
                                       (''message'', JStr ''invalid size'')])]"
  let ?w = "\<lparr>server = [json_response 400 ?body], trace = []\<rparr>"
  let ?pl = "[(''model'', JStr ''sora-2''), (''prompt'', JStr ''test''), (''size'', JStr ''bad'')]"
  let ?w1 = "snd (post_json scripted demo_client ''/v1/videos'' ?pl 120 ?w)"
  let ?r = "\<lparr>model = ''sora-2'', category = ''video'', ok = True, skipped = False,
             endpoint = Some ''/v1/videos'', http = Some 400, error = None,
             note' = Some (Some ''validation-only (invalid size)'')\<rparr>"
  have cat: "category_for ''sora-2'' = ''video''"
    by (simp add: category_for_def lower_def lower_char_def)
  have post: "post_json scripted demo_client ''/v1/videos'' ?pl 120 ?w = (Inr (400, ?body, []), ?w1)"
    by (simp add: run_simps)
  have run: "probe_one scripted demo_fs demo_client ''sora-2'' ''/tmp/openai-probe.wav'' ?w
               = (Inr ?r, ?w1)"
    by (simp add: video_branch [OF cat] run_simps)
  have env: "\<exists>e. err_summary ?body = Some e \<and> dget e ''param'' = JStr ''size''"
    by (simp add: run_simps)
  from probe_one_video [OF cat post run] env
  have "ok ?r \<and> note' ?r = Some (Some ''validation-only (invalid size)'') \<and> error ?r = None
        \<and> length (effects ?w ?w1) = 1"
    by auto
  with run show ?thesis by blast
qed

text \<open>
  C10. Every outcome that \<open>probe_one\<close> returns has a null error when it is \<open>ok\<close>; and for
  the categories served by the fallback chain (\<open>computer_use\<close>, \<open>deep_research\<close>,
  \<open>text\<close>) and for \<open>tts\<close>, an outcome that is not \<open>ok\<close> has an error that is not null.
\<close>

theorem probe_one_error_field:
  assumes "probe_one send fs c mid wav w = (Inr r, w')"
  shows "(ok r \<longrightarrow> error r = None)
       \<and> (\<not> ok r \<and> category_for mid \<in> {''computer_use'', ''deep_research'', ''text'', ''tts''}
            \<longrightarrow> error r \<noteq> None)"
  using probe_one_ok_error [OF assms] probe_one_failed_error [OF assms] by blast

theorem probe_one_error_field_witness:
  "(\<exists>r w'. probe_one scripted demo_fs demo_client ''text-embedding-3-small''
              ''/tmp/openai-probe.wav''
              \<lparr>server = [json_response 200 (JObj [(''data'', JArr [])])], trace = []\<rparr>
            = (Inr r, w')
          \<and> ok r \<and> error r = None)
 \<and> (\<exists>r w'. probe_one scripted demo_fs demo_client ''tts-1'' ''/tmp/openai-probe.wav''
              \<lparr>server = [Response \<lparr>status_code = 500,
                                   resp_headers = [(''Content-Type'', ''text/html'')],
                                   resp_text = ''Internal Server Error'', resp_json = None\<rparr>],
               trace = []\<rparr>
            = (Inr r, w')
          \<and> \<not> ok r \<and> category_for ''tts-1'' = ''tts'' \<and> error r \<noteq> None)"
proof -
  let ?wa = "\<lparr>server = [json_response 200 (JObj [(''data'', JArr [])])], trace = []\<rparr>"
  let ?ra = "\<lparr>model = ''text-embedding-3-small'', category = ''embeddings'', ok = True,
              skipped = False, endpoint = Some ''/v1/embeddings'', http = Some 200,
              error = None, note' = None\<rparr>"
  let ?wb = "\<lparr>server = [Response \<lparr>status_code = 500,
                                   resp_headers = [(''Content-Type'', ''text/html'')],
                                   resp_text = ''Internal Server Error'', resp_json = None\<rparr>],
               trace = []\<rparr>"
  let ?rb = "\<lparr>model = ''tts-1'', category = ''tts'', ok = False,
              skipped = False, endpoint = Some ''/v1/audio/speech'', http = Some 500,
              error = Some [(''message'', JStr ''http 500''),
                            (''content_type'', JStr ''text/html'')], note' = None\<rparr>"
  have a: "probe_one scripted demo_fs demo_client ''text-embedding-3-small''
             ''/tmp/openai-probe.wav'' ?wa
           = (Inr ?ra, snd (probe_one scripted demo_fs demo_client ''text-embedding-3-small''
             ''/tmp/openai-probe.wav'' ?wa))"
    by (simp add: probe_simps)
  have b: "probe_one scripted demo_fs demo_client ''tts-1'' ''/tmp/openai-probe.wav'' ?wb
           = (Inr ?rb, snd (probe_one scripted demo_fs demo_client ''tts-1''
                ''/tmp/openai-probe.wav'' ?wb))"
    by (simp add: probe_simps str_int_def)
  have cb: "category_for ''tts-1'' = ''tts''"
    by (simp add: category_for_def lower_def lower_char_def)
  from probe_one_error_field [OF a] have "ok ?ra \<and> error ?ra = None" by simp
  moreover from probe_one_error_field [OF b] cb have "\<not> ok ?rb \<and> error ?rb \<noteq> None" by simp
  ultimately show ?thesis using a b cb by blast
qed

section \<open>The orchestrator: auxiliary facts\<close>







lemma main_unfold:
  "main send fs a env w =
      (if \<not> path_exists fs (wav_path_of env)
      then \<lparr>status = Inr 2, results = [], final = emit (Stderr (Missing_wav (wav_path_of env))) w\<rparr>
      else
        case get_models send (client_of a env) w of
          (Inl e, w1) \<Rightarrow> \<lparr>status = Inl e, results = [], final = w1\<rparr>
        | (Inr (st, models_resp), w1) \<Rightarrow>
            if st \<noteq> 200
            then \<lparr>status = Inr 3, results = [],
                  final = emit (Stderr (Models_failed st models_resp)) w1\<rparr>
            else
              (case model_ids models_resp of
                 Inl e \<Rightarrow> \<lparr>status = Inl e, results = [], final = w1\<rparr>
               | Inr ids \<Rightarrow>
                   (case probe_all send fs (client_of a env) (wav_path_of env) (arg_sleep_ms a) (length ids) 1 ids [] w1 of
                      (rs, w2) \<Rightarrow>
                        (case open_w fs (out_json a) of
                           Some e \<Rightarrow> \<lparr>status = Inl e, results = rs, final = w2\<rparr>
                         | None \<Rightarrow>
                             (case write_md fs (out_md a) rs (emit (Dumped (out_json a)) w2) of
                                (Inl e, w3) \<Rightarrow> \<lparr>status = Inl e, results = rs, final = w3\<rparr>
                              | (Inr _, w3) \<Rightarrow> \<lparr>status = Inr 0, results = rs, final = w3\<rparr>)))))"
  unfolding main_def wav_path_of_def client_of_def Let_def by (rule refl)


lemma get_models_no_key:
  "auth_mode c = ''bearer'' \<Longrightarrow> no_key c \<Longrightarrow> get_models send c w = (Inl key_required, w)"
  by (simp add: get_models_def headers_json_def io_bind_def)

text \<open>The table of the failed models cannot be written for an outcome whose error
  message is true and not a string: \<open>write_md\<close> raises, after the loop and after the
  JSON report.\<close>

lemma md_row_non_string:
  "md_row \<lparr>model = mid, category = cat, ok = False, skipped = False, endpoint = ep, http = st,
           error = Some [(''type'', JNull), (''code'', JNull), (''param'', JNull),
                         (''message'', JInt 123)], note' = None\<rparr>
     = Inl (no_attribute (JInt 123) ''replace'')"
  by (simp add: md_row_def dget_def)

section \<open>Properties of the orchestrator\<close>




text \<open>
  The values \<open>main\<close> returns: 2 when the audio fixture is missing and 3 when the listing
  is answered with a status other than 200, in both cases with no outcome; whenever
  \<open>main\<close> returns, it returns 0, 2 or 3, and 0 only when the fixture exists and the
  listing was answered with HTTP 200.
\<close>

lemma main_return_values:
  "(\<not> path_exists fs (wav_path_of env)
      \<longrightarrow> status (main send fs a env w) = Inr 2 \<and> results (main send fs a env w) = []
        \<and> effects w (final (main send fs a env w)) = [Stderr (Missing_wav (wav_path_of env))])
 \<and> (\<forall>st body w1.
       path_exists fs (wav_path_of env)
     \<and> get_models send (client_of a env) w = (Inr (st, body), w1) \<and> st \<noteq> 200
      \<longrightarrow> status (main send fs a env w) = Inr 3 \<and> results (main send fs a env w) = []
        \<and> final (main send fs a env w) = emit (Stderr (Models_failed st body)) w1)
 \<and> (\<forall>n. status (main send fs a env w) = Inr n
      \<longrightarrow> (n = 0 \<or> n = 2 \<or> n = 3)
        \<and> (n = 0 \<longleftrightarrow> path_exists fs (wav_path_of env)
                     \<and> (\<exists>body w1. get_models send (client_of a env) w = (Inr (200, body), w1))))
 \<and> exit_code (Inr 2) \<noteq> 0 \<and> exit_code (Inr 3) \<noteq> 0 \<and> exit_code (Inr 2) \<noteq> exit_code (Inr 3)
 \<and> exit_code (Inr 0) = 0"
proof -
  have a: "\<not> path_exists fs (wav_path_of env)
      \<longrightarrow> status (main send fs a env w) = Inr 2 \<and> results (main send fs a env w) = []
        \<and> effects w (final (main send fs a env w)) = [Stderr (Missing_wav (wav_path_of env))]"
    by (simp add: main_unfold emit_def effects_def)
  have b: "\<forall>st body w1.
       path_exists fs (wav_path_of env)
     \<and> get_models send (client_of a env) w = (Inr (st, body), w1) \<and> st \<noteq> 200
      \<longrightarrow> status (main send fs a env w) = Inr 3 \<and> results (main send fs a env w) = []
        \<and> final (main send fs a env w) = emit (Stderr (Models_failed st body)) w1"
    by (simp add: main_unfold)
  have c: "\<forall>n. status (main send fs a env w) = Inr n
      \<longrightarrow> (n = 0 \<or> n = 2 \<or> n = 3)
        \<and> (n = 0 \<longleftrightarrow> path_exists fs (wav_path_of env)
                     \<and> (\<exists>body w1. get_models send (client_of a env) w = (Inr (200, body), w1)))"
    by (auto simp: main_unfold split: prod.splits sum.splits option.splits if_splits)
  have d: "exit_code (Inr 2) \<noteq> 0 \<and> exit_code (Inr 3) \<noteq> 0 \<and> exit_code (Inr 2) \<noteq> exit_code (Inr 3)
           \<and> exit_code (Inr 0) = 0"
    by (simp add: exit_code_def)
  from a b c d show ?thesis by blast
qed

text \<open>
  C9. With the auth mode \<open>bearer\<close> and no key, or an empty one, building the headers
  raises the \<open>RuntimeError\<close> that names the missing key, so no request of the client
  is sent; a run of \<open>main\<close> then ends with that exception (or with status 2 when the
  audio fixture is missing as well), with an exit status other than zero, no outcome
  and no request sent. With the auth mode \<open>none\<close> the headers carry no
  \<open>Authorization\<close> and are the same whatever the key.
\<close>

theorem bearer_needs_key:
  "(auth_mode c = ''bearer'' \<and> no_key c
      \<longrightarrow> headers_json c = Inl key_required \<and> headers_multipart c = Inl key_required
        \<and> get_models send c w = (Inl key_required, w)
        \<and> post_json send c path pl tmo w = (Inl key_required, w)
        \<and> post_multipart send c path flds files tmo w = (Inl key_required, w))
 \<and> (arg_auth_mode a = ''bearer'' \<and> (OPENAI_API_KEY env = None \<or> OPENAI_API_KEY env = Some [])
      \<longrightarrow> status (main send fs a env w)
            = (if path_exists fs (wav_path_of env) then Inl key_required else Inr 2)
        \<and> exit_code (status (main send fs a env w)) \<noteq> 0
        \<and> results (main send fs a env w) = []
        \<and> (\<forall>rq. Sent rq \<notin> set (effects w (final (main send fs a env w)))))
 \<and> (auth_mode c = ''none''
      \<longrightarrow> (\<forall>k. headers_json (c\<lparr>api_key := k\<rparr>) = Inr [(''Content-Type'', ''application/json'')]
              \<and> headers_multipart (c\<lparr>api_key := k\<rparr>) = Inr []))"
proof -
  have a: "auth_mode c = ''bearer'' \<and> no_key c
      \<longrightarrow> headers_json c = Inl key_required \<and> headers_multipart c = Inl key_required
        \<and> get_models send c w = (Inl key_required, w)
        \<and> post_json send c path pl tmo w = (Inl key_required, w)
        \<and> post_multipart send c path flds files tmo w = (Inl key_required, w)"
    by (simp add: headers_json_def headers_multipart_def get_models_def post_json_def
        post_multipart_def io_bind_def)
  have nk: "no_key (client_of a env)"
    if "OPENAI_API_KEY env = None \<or> OPENAI_API_KEY env = Some []"
    using that by (auto simp: no_key_def client_of_def)
  have b: "arg_auth_mode a = ''bearer'' \<and> (OPENAI_API_KEY env = None \<or> OPENAI_API_KEY env = Some [])
      \<longrightarrow> status (main send fs a env w)
            = (if path_exists fs (wav_path_of env) then Inl key_required else Inr 2)
        \<and> exit_code (status (main send fs a env w)) \<noteq> 0
        \<and> results (main send fs a env w) = []
        \<and> (\<forall>rq. Sent rq \<notin> set (effects w (final (main send fs a env w))))"
  proof
    assume h: "arg_auth_mode a = ''bearer'' \<and> (OPENAI_API_KEY env = None \<or> OPENAI_API_KEY env = Some [])"
    then have "auth_mode (client_of a env) = ''bearer''" by (simp add: client_of_def)
    with nk h have g: "get_models send (client_of a env) w = (Inl key_required, w)"
      by (simp add: get_models_no_key)
    show "status (main send fs a env w)
            = (if path_exists fs (wav_path_of env) then Inl key_required else Inr 2)
        \<and> exit_code (status (main send fs a env w)) \<noteq> 0
        \<and> results (main send fs a env w) = []
        \<and> (\<forall>rq. Sent rq \<notin> set (effects w (final (main send fs a env w))))"
      using g by (simp add: main_unfold exit_code_def effects_def emit_def)
  qed
  have c: "auth_mode c = ''none''
      \<longrightarrow> (\<forall>k. headers_json (c\<lparr>api_key := k\<rparr>) = Inr [(''Content-Type'', ''application/json'')]
              \<and> headers_multipart (c\<lparr>api_key := k\<rparr>) = Inr [])"
    by (simp add: headers_json_def headers_multipart_def)
  from a b c show ?thesis by blast
qed

section \<open>The properties of the orchestrator on sample runs\<close>

lemmas main_simps = probe_simps get_models_def client_of_def wav_path_of_def demo_args_def
  demo_env_def demo_listing_def model_ids_def py_iter_def strip_def is_space_def



lemma main_return_values_sample:
  "status (main scripted no_wav_fs demo_args demo_env
             \<lparr>server = [json_response 200 demo_listing], trace = []\<rparr>) = Inr 2
 \<and> status (main scripted demo_fs demo_args demo_env
             \<lparr>server = [json_response 401 (error_body ''invalid_request_error'' ''bad key'')],
              trace = []\<rparr>) = Inr 3
 \<and> results (main scripted demo_fs demo_args demo_env
             \<lparr>server = [json_response 401 (error_body ''invalid_request_error'' ''bad key'')],
              trace = []\<rparr>) = []
 \<and> status (main scripted demo_fs demo_args demo_env
             \<lparr>server = [json_response 200
                          (JObj [(''data'', JArr [JObj [(''id'', JStr ''text-embedding-3-small'')]])]),
                        json_response 500 (error_body ''server_error'' ''boom'')],
              trace = []\<rparr>) = Inr 0
 \<and> map ok (results (main scripted demo_fs demo_args demo_env
             \<lparr>server = [json_response 200
                          (JObj [(''data'', JArr [JObj [(''id'', JStr ''text-embedding-3-small'')]])]),
                        json_response 500 (error_body ''server_error'' ''boom'')],
              trace = []\<rparr>)) = [False]
 \<and> (\<exists>body w1. get_models scripted (client_of demo_args demo_env)
             \<lparr>server = [json_response 200
                          (JObj [(''data'', JArr [JObj [(''id'', JStr ''text-embedding-3-small'')]])]),
                        json_response 500 (error_body ''server_error'' ''boom'')],
              trace = []\<rparr> = (Inr (200, body), w1))"
proof -
  let ?w2 = "\<lparr>server = [json_response 401 (error_body ''invalid_request_error'' ''bad key'')],
              trace = []\<rparr>"
  let ?w3 = "\<lparr>server = [json_response 200
                          (JObj [(''data'', JArr [JObj [(''id'', JStr ''text-embedding-3-small'')]])]),
                        json_response 500 (error_body ''server_error'' ''boom'')],
              trace = []\<rparr>"
  have nowav: "\<not> path_exists no_wav_fs (wav_path_of demo_env)"
    by (simp add: no_wav_fs_def)
  have wav: "path_exists demo_fs (wav_path_of demo_env)"
    by (simp add: demo_fs_def)
  have l2: "get_models scripted (client_of demo_args demo_env) ?w2
              = (Inr (401, error_body ''invalid_request_error'' ''bad key''),
                 snd (get_models scripted (client_of demo_args demo_env) ?w2))"
    by (simp add: main_simps)
  have s3: "status (main scripted demo_fs demo_args demo_env ?w3) = Inr 0
          \<and> map ok (results (main scripted demo_fs demo_args demo_env ?w3)) = [False]"
    by (simp add: main_def guarded_def write_md_def md_row_def main_simps)
  from main_return_values [of no_wav_fs demo_env scripted demo_args
                           "\<lparr>server = [json_response 200 demo_listing], trace = []\<rparr>"] nowav
  have a: "status (main scripted no_wav_fs demo_args demo_env
             \<lparr>server = [json_response 200 demo_listing], trace = []\<rparr>) = Inr 2"
    by blast
  have pre: "path_exists demo_fs (wav_path_of demo_env)
           \<and> get_models scripted (client_of demo_args demo_env) ?w2
               = (Inr (401, error_body ''invalid_request_error'' ''bad key''),
                  snd (get_models scripted (client_of demo_args demo_env) ?w2))
           \<and> (401 :: int) \<noteq> 200"
    using wav l2 by simp
  from main_return_values [of demo_fs demo_env scripted demo_args ?w2]
  have "\<forall>st body w1.
       path_exists demo_fs (wav_path_of demo_env)
     \<and> get_models scripted (client_of demo_args demo_env) ?w2 = (Inr (st, body), w1) \<and> st \<noteq> 200
      \<longrightarrow> status (main scripted demo_fs demo_args demo_env ?w2) = Inr 3
        \<and> results (main scripted demo_fs demo_args demo_env ?w2) = []
        \<and> final (main scripted demo_fs demo_args demo_env ?w2)
            = emit (Stderr (Models_failed st body)) w1"
    by blast
  with pre have b: "status (main scripted demo_fs demo_args demo_env ?w2) = Inr 3
         \<and> results (main scripted demo_fs demo_args demo_env ?w2) = []"
    by blast
  from main_return_values [of demo_fs demo_env scripted demo_args ?w3] s3
  have c: "\<exists>body w1. get_models scripted (client_of demo_args demo_env) ?w3
                        = (Inr (200, body), w1)"
    by blast
  from a b s3 c show ?thesis by blast
qed

theorem bearer_needs_key_witness:
  "headers_json \<lparr>base_url = ''https://api.openai.com'', api_key = None,
                  auth_mode = ''bearer''\<rparr> = Inl key_required
 \<and> status (main scripted demo_fs demo_args (demo_env\<lparr>OPENAI_API_KEY := Some []\<rparr>)
             \<lparr>server = [json_response 200 demo_listing], trace = []\<rparr>) = Inl key_required
 \<and> results (main scripted demo_fs demo_args (demo_env\<lparr>OPENAI_API_KEY := Some []\<rparr>)
             \<lparr>server = [json_response 200 demo_listing], trace = []\<rparr>) = []
 \<and> headers_json \<lparr>base_url = ''http://localhost:3000'', api_key = None,
                  auth_mode = ''none''\<rparr> = Inr [(''Content-Type'', ''application/json'')]"
proof -
  let ?c = "\<lparr>base_url = ''https://api.openai.com'', api_key = None, auth_mode = ''bearer''\<rparr>"
  let ?n = "\<lparr>base_url = ''http://localhost:3000'', api_key = None, auth_mode = ''none''\<rparr>"
  let ?env = "demo_env\<lparr>OPENAI_API_KEY := Some []\<rparr>"
  let ?w = "\<lparr>server = [json_response 200 demo_listing], trace = []\<rparr>"
  have h1: "auth_mode ?c = ''bearer'' \<and> no_key ?c" by (simp add: no_key_def)
  have h2: "arg_auth_mode demo_args = ''bearer''
            \<and> (OPENAI_API_KEY ?env = None \<or> OPENAI_API_KEY ?env = Some [])"
    by (simp add: demo_args_def)
  have h3: "auth_mode ?n = ''none''" by simp
  have wav: "path_exists demo_fs (wav_path_of ?env)" by (simp add: demo_fs_def)
  from bearer_needs_key [where c = ?c] h1
  have a: "headers_json ?c = Inl key_required" by blast
  from bearer_needs_key [where a = demo_args and env = ?env and send = scripted and fs = demo_fs and w = ?w] h2 wav
  have b: "status (main scripted demo_fs demo_args ?env ?w) = Inl key_required
         \<and> results (main scripted demo_fs demo_args ?env ?w) = []"
    by simp
  from bearer_needs_key [where c = ?n] h3
  have "headers_json (?n\<lparr>api_key := None\<rparr>) = Inr [(''Content-Type'', ''application/json'')]"
    by blast
  then have c: "headers_json ?n = Inr [(''Content-Type'', ''application/json'')]" by simp
  from a b c show ?thesis by blast
qed

text \<open>
  C8. The exit status is to be zero on normal completion however many probes failed.
  In this run the fixture exists, the listing is answered with HTTP 200 and names one
  model, and its probe is answered with HTTP 400 and the envelope
  \<open>{"error": {"message": 123}}\<close>. The probe fails and its outcome is recorded, the JSON
  report is written, and then \<open>write_md\<close> raises \<open>AttributeError\<close> at
  \<open>(msg or "").replace\<close> (line 410): the Markdown report is not written and the
  process ends with status 1. The same run with the message \<open>"boom"\<close> returns 0.
\<close>

theorem main_exit_probe_failure:
  "status (main scripted demo_fs demo_args demo_env
             \<lparr>server = [json_response 200
                          (JObj [(''data'', JArr [JObj [(''id'', JStr ''text-embedding-3-small'')]])]),
                        json_response 400 (JObj [(''error'', JObj [(''message'', JInt 123)])])],
              trace = []\<rparr>)
     = Inl (no_attribute (JInt 123) ''replace'')
 \<and> exn_type (no_attribute (JInt 123) ''replace'') = ''AttributeError''
 \<and> exit_code (status (main scripted demo_fs demo_args demo_env
             \<lparr>server = [json_response 200
                          (JObj [(''data'', JArr [JObj [(''id'', JStr ''text-embedding-3-small'')]])]),
                        json_response 400 (JObj [(''error'', JObj [(''message'', JInt 123)])])],
              trace = []\<rparr>)) = 1
 \<and> map ok (results (main scripted demo_fs demo_args demo_env
             \<lparr>server = [json_response 200
                          (JObj [(''data'', JArr [JObj [(''id'', JStr ''text-embedding-3-small'')]])]),
                        json_response 400 (JObj [(''error'', JObj [(''message'', JInt 123)])])],
              trace = []\<rparr>)) = [False]
 \<and> Dumped ''probe.json'' \<in> set (trace (final (main scripted demo_fs demo_args demo_env
             \<lparr>server = [json_response 200
                          (JObj [(''data'', JArr [JObj [(''id'', JStr ''text-embedding-3-small'')]])]),
                        json_response 400 (JObj [(''error'', JObj [(''message'', JInt 123)])])],
              trace = []\<rparr>)))
 \<and> Wrote_md ''probe.md'' \<notin> set (trace (final (main scripted demo_fs demo_args demo_env
             \<lparr>server = [json_response 200
                          (JObj [(''data'', JArr [JObj [(''id'', JStr ''text-embedding-3-small'')]])]),
                        json_response 400 (JObj [(''error'', JObj [(''message'', JInt 123)])])],
              trace = []\<rparr>)))
 \<and> status (main scripted demo_fs demo_args demo_env
             \<lparr>server = [json_response 200
                          (JObj [(''data'', JArr [JObj [(''id'', JStr ''text-embedding-3-small'')]])]),
                        json_response 400 (JObj [(''error'', JObj [(''message'', JStr ''boom'')])])],
              trace = []\<rparr>) = Inr 0"
proof -
  let ?bad = "\<lparr>server = [json_response 200
                          (JObj [(''data'', JArr [JObj [(''id'', JStr ''text-embedding-3-small'')]])]),
                        json_response 400 (JObj [(''error'', JObj [(''message'', JInt 123)])])],
              trace = []\<rparr>"
  let ?good = "\<lparr>server = [json_response 200
                          (JObj [(''data'', JArr [JObj [(''id'', JStr ''text-embedding-3-small'')]])]),
                        json_response 400 (JObj [(''error'', JObj [(''message'', JStr ''boom'')])])],
              trace = []\<rparr>"
  have st: "status (main scripted demo_fs demo_args demo_env ?bad)
              = Inl (no_attribute (JInt 123) ''replace'')"
    by (simp add: main_def guarded_def write_md_def md_row_def main_simps)
  have rs: "map ok (results (main scripted demo_fs demo_args demo_env ?bad)) = [False]"
    by (simp add: main_def guarded_def write_md_def md_row_def main_simps)
  have tr: "Dumped ''probe.json''
              \<in> set (trace (final (main scripted demo_fs demo_args demo_env ?bad)))
          \<and> Wrote_md ''probe.md''
              \<notin> set (trace (final (main scripted demo_fs demo_args demo_env ?bad)))"
    by (simp add: main_def guarded_def write_md_def md_row_def main_simps)
  have ty: "exn_type (no_attribute (JInt 123) ''replace'') = ''AttributeError''"
    by (simp add: no_attribute_def)
  have ex: "exit_code (status (main scripted demo_fs demo_args demo_env ?bad)) = 1"
    unfolding st by (simp add: exit_code_def)
  have good: "status (main scripted demo_fs demo_args demo_env ?good) = Inr 0"
    by (simp add: main_def guarded_def write_md_def md_row_def main_simps)
  from st ty ex rs tr good show ?thesis by blast
qed

end
